theory Spec2Isabelle
  imports Main "HOL-Library.Word"
begin

unbundle bit_operations_syntax

section \<open>Types and constants of AlicatMODBUSRTU.h\<close>

text \<open>
  \<^verbatim>\<open>uint16_t\<close> is a 16-bit word. A \<^verbatim>\<open>float\<close> is carried as its 32-bit IEEE-754 bit
  pattern: the driver never computes with setpoints and telemetry, it only moves their
  bits between the caller and two registers. Values of the C type \<^verbatim>\<open>int\<close> (register
  addresses, indices, the offset, the device-type tag) are carried as \<open>int\<close>. Every
  address the driver forms from its own constants and checked indices is below 1300 and
  fits an \<^verbatim>\<open>int\<close> of any width; the one sum of two caller-chosen values is the one in
  \<^verbatim>\<open>offsetRegister\<close>, and there the result is cut to the width of \<^verbatim>\<open>int\<close>.
\<close>

type_synonym uint16_t = "16 word"
type_synonym float32 = "32 word"

definition DEVICE_TYPE_MASS_FLOW_CONTROLLER :: int where
  "DEVICE_TYPE_MASS_FLOW_CONTROLLER = 0"
definition DEVICE_TYPE_LIQUID_CONTROLLER :: int where
  "DEVICE_TYPE_LIQUID_CONTROLLER = 1"
definition DEVICE_TYPE_MASS_FLOW_METER :: int where
  "DEVICE_TYPE_MASS_FLOW_METER = 2"
definition DEVICE_TYPE_PSID_CONTROLLER :: int where
  "DEVICE_TYPE_PSID_CONTROLLER = 3"
definition DEVICE_TYPE_GAUGE_PRESSURE_CONTROLLER :: int where
  "DEVICE_TYPE_GAUGE_PRESSURE_CONTROLLER = 4"

definition STATUS_CODE_SUCCESS :: uint16_t where
  "STATUS_CODE_SUCCESS = 0"
definition STATUS_CODE_INVALID_COMMAND_ID :: uint16_t where
  "STATUS_CODE_INVALID_COMMAND_ID = 32769"
definition STATUS_CODE_INVALID_SETTING :: uint16_t where
  "STATUS_CODE_INVALID_SETTING = 32770"
definition STATUS_CODE_REQUESTED_FEATURE_IS_UNSUPPORTED :: uint16_t where
  "STATUS_CODE_REQUESTED_FEATURE_IS_UNSUPPORTED = 32771"
definition STATUS_CODE_INVALID_GAS_MIX_INDEX :: uint16_t where
  "STATUS_CODE_INVALID_GAS_MIX_INDEX = 32772"
definition STATUS_CODE_INVALID_GAS_MIX_CONSTITUENT :: uint16_t where
  "STATUS_CODE_INVALID_GAS_MIX_CONSTITUENT = 32773"
definition STATUS_CODE_INVALID_GAS_MIX_PERCENTAGE :: uint16_t where
  "STATUS_CODE_INVALID_GAS_MIX_PERCENTAGE = 32774"

definition STATUS_BIT_TEMPERATURE_OVERFLOW :: uint16_t where
  "STATUS_BIT_TEMPERATURE_OVERFLOW = 0x0001"
definition STATUS_BIT_TEMPERATURE_UNDERFLOW :: uint16_t where
  "STATUS_BIT_TEMPERATURE_UNDERFLOW = 0x0002"
definition STATUS_BIT_VOLUMETRIC_OVERFLOW :: uint16_t where
  "STATUS_BIT_VOLUMETRIC_OVERFLOW = 0x0004"
definition STATUS_BIT_VOLUMETRIC_UNDERFLOW :: uint16_t where
  "STATUS_BIT_VOLUMETRIC_UNDERFLOW = 0x0008"
definition STATUS_BIT_MASS_OVERFLOW :: uint16_t where
  "STATUS_BIT_MASS_OVERFLOW = 0x0010"
definition STATUS_BIT_MASS_UNDERFLOW :: uint16_t where
  "STATUS_BIT_MASS_UNDERFLOW = 0x0020"
definition STATUS_BIT_PRESSURE_OVERFLOW :: uint16_t where
  "STATUS_BIT_PRESSURE_OVERFLOW = 0x0040"
definition STATUS_BIT_TOTALIZER_OVERFLOW :: uint16_t where
  "STATUS_BIT_TOTALIZER_OVERFLOW = 0x0080"
definition STATUS_BIT_PID_LOOP_IN_HOLD :: uint16_t where
  "STATUS_BIT_PID_LOOP_IN_HOLD = 0x0100"
definition STATUS_BIT_ADC_ERROR :: uint16_t where
  "STATUS_BIT_ADC_ERROR = 0x0200"
definition STATUS_BIT_PID_EXHAUST :: uint16_t where
  "STATUS_BIT_PID_EXHAUST = 0x0400"
definition STATUS_BIT_OVER_PRESSURE_LIMIT :: uint16_t where
  "STATUS_BIT_OVER_PRESSURE_LIMIT = 0x0800"
definition STATUS_BIT_FLOW_OVERFLOW_DURING_TOTALIZE :: uint16_t where
  "STATUS_BIT_FLOW_OVERFLOW_DURING_TOTALIZE = 0x1000"
definition STATUS_BIT_MEASUREMENT_ABORTED :: uint16_t where
  "STATUS_BIT_MEASUREMENT_ABORTED = 0x2000"

definition SPECIAL_COMMAND_CHANGE_GAS_NUMBER :: uint16_t where
  "SPECIAL_COMMAND_CHANGE_GAS_NUMBER = 1"
definition SPECIAL_COMMAND_CREATE_CUSTOM_GAS_MIXTURE :: uint16_t where
  "SPECIAL_COMMAND_CREATE_CUSTOM_GAS_MIXTURE = 2"
definition SPECIAL_COMMAND_DELETE_CUSTOM_GAS_MIXTURE :: uint16_t where
  "SPECIAL_COMMAND_DELETE_CUSTOM_GAS_MIXTURE = 3"
definition SPECIAL_COMMAND_TARE :: uint16_t where
  "SPECIAL_COMMAND_TARE = 4"
definition SPECIAL_COMMAND_READ_PID_VALUE :: uint16_t where
  "SPECIAL_COMMAND_READ_PID_VALUE = 14"

text \<open>
  The header defines \<^verbatim>\<open>REGISTER_GAS_NUMBER\<close> twice (1141, then 1200); the later
  definition is the one in force where the driver uses the name.
\<close>

definition REGISTER_COMMAND_ID :: int where
  "REGISTER_COMMAND_ID = 1000"
definition REGISTER_COMMAND_ARGUMENT :: int where
  "REGISTER_COMMAND_ARGUMENT = 1001"
definition REGISTER_SETPOINT :: int where
  "REGISTER_SETPOINT = 1010"
definition REGISTER_MIXTURE_GAS_1_INDEX :: int where
  "REGISTER_MIXTURE_GAS_1_INDEX = 1050"
definition REGISTER_GAS_NUMBER :: int where
  "REGISTER_GAS_NUMBER = 1200"
definition REGISTER_DEVICE_STATUS :: int where
  "REGISTER_DEVICE_STATUS = 1201"
definition REGISTER_DEVICE_STATISTIC_1_VALUE :: int where
  "REGISTER_DEVICE_STATISTIC_1_VALUE = 1203"

section \<open>The driver object and its collaborators\<close>

text \<open>The \<^verbatim>\<open>_status\<close> member: fourteen decoded bits and the derived flag.\<close>

record status_flags =
  TEMPERATURE_OVERFLOW :: bool
  TEMPERATURE_UNDERFLOW :: bool
  VOLUMETRIC_OVERFLOW :: bool
  VOLUMETRIC_UNDERFLOW :: bool
  MASS_OVERFLOW :: bool
  MASS_UNDERFLOW :: bool
  PRESSURE_OVERFLOW :: bool
  TOTALIZER_OVERFLOW :: bool
  PID_LOOP_IN_HOLD :: bool
  ADC_ERROR :: bool
  PID_EXHAUST :: bool
  OVER_PRESSURE_LIMIT :: bool
  FLOW_OVERFLOW_DURING_TOTALIZE :: bool
  MEASUREMENT_ABORTED :: bool
  ANY_ERROR :: bool

text \<open>
  What the driver sends to \<^verbatim>\<open>_serial\<close>: one item per \<^verbatim>\<open>print\<close>/\<^verbatim>\<open>println\<close> call,
  numbers kept as numbers.
\<close>

datatype serial_item =
  Print string
  | Println string
  | PrintlnInt int
  | PrintUInt uint16_t
  | PrintlnBin uint16_t

text \<open>
  The transport \<^verbatim>\<open>ModbusInterface\<close> is not part of the repository; the driver uses two
  of its methods. They are parameters here, acting on a bus state \<open>'b\<close> of their own.
  A read of \<open>n\<close> registers either fails (\<open>None\<close>) or fills the caller's response array
  (\<open>Some r\<close>, with \<open>r i\<close> the content of \<^verbatim>\<open>response[i]\<close>). Arguments: device id, start
  address, then the count or the data words.
\<close>

record 'b ModbusInterface =
  readHoldingRegisterValues :: "int \<Rightarrow> int \<Rightarrow> nat \<Rightarrow> 'b \<Rightarrow> (nat \<Rightarrow> uint16_t) option \<times> 'b"
  writeHoldingRegisterValues :: "int \<Rightarrow> int \<Rightarrow> uint16_t list \<Rightarrow> 'b \<Rightarrow> bool \<times> 'b"

text \<open>Every call the driver makes on the transport is recorded, in order.\<close>

datatype bus_call =
  ReadHolding int int nat
  | WriteHolding int int "uint16_t list"

text \<open>
  The members of the class (\<^verbatim>\<open>_serial\<close>, \<^verbatim>\<open>_modbus\<close>, \<^verbatim>\<open>_verbose\<close>, ...), with the
  state of the two referenced objects held in place, and the record of transport calls.
  \<open>int_bits\<close> is the width of the board's \<^verbatim>\<open>int\<close> that the object was compiled for:
  16 on the AVR boards, 32 on the ARM and ESP boards.
\<close>

record 'b driver =
  m_serial :: "serial_item list"
  m_modbus :: 'b
  bus_calls :: "bus_call list"
  m_verbose :: bool
  m_registerOffset :: int
  m_modbusID :: int
  m_deviceType :: int
  m_status :: status_flags
  int_bits :: nat

text \<open>
  Float arithmetic of the platform, used only on the gas-percent path. IEEE arithmetic is
  outside this development (and \<^verbatim>\<open>double\<close> is 32 or 64 bits depending on the board), so
  the four expressions of the source are parameters:
  \<^verbatim>\<open>gasPercent < 0.0\<close>, \<^verbatim>\<open>gasPercent > 100.0\<close>,
  \<^verbatim>\<open>(uint16_t)round(gasPercent * 100.0)\<close> and \<^verbatim>\<open>((float)x) / 100.0\<close>.
\<close>

record float_ops =
  fp_less_0 :: "float32 \<Rightarrow> bool"
  fp_greater_100 :: "float32 \<Rightarrow> bool"
  fp_round_times_100 :: "float32 \<Rightarrow> uint16_t"
  fp_div_100 :: "uint16_t \<Rightarrow> float32"

definition serial_emit :: "serial_item \<Rightarrow> 'b driver \<Rightarrow> 'b driver" where
  "serial_emit x st = st\<lparr>m_serial := m_serial st @ [x]\<rparr>"

text \<open>\<^verbatim>\<open>if (_verbose) _serial.println(msg);\<close>\<close>

definition verbose_println :: "string \<Rightarrow> 'b driver \<Rightarrow> 'b driver" where
  "verbose_println msg st = (if m_verbose st then serial_emit (Println msg) st else st)"

definition modbus_read ::
  "'b ModbusInterface \<Rightarrow> int \<Rightarrow> nat \<Rightarrow> 'b driver \<Rightarrow> (nat \<Rightarrow> uint16_t) option \<times> 'b driver" where
  "modbus_read T address n st =
     (case readHoldingRegisterValues T (m_modbusID st) address n (m_modbus st) of
        (r, b) \<Rightarrow>
          (r, st\<lparr>m_modbus := b,
                 bus_calls := bus_calls st @ [ReadHolding (m_modbusID st) address n]\<rparr>))"

definition modbus_write ::
  "'b ModbusInterface \<Rightarrow> int \<Rightarrow> uint16_t list \<Rightarrow> 'b driver \<Rightarrow> 'b driver" where
  "modbus_write T address ws st =
     (case writeHoldingRegisterValues T (m_modbusID st) address ws (m_modbus st) of
        (ok, b) \<Rightarrow>
          st\<lparr>m_modbus := b,
             bus_calls := bus_calls st @ [WriteHolding (m_modbusID st) address ws]\<rparr>)"

section \<open>Constructor and helper functions\<close>

text \<open>The constructor leaves \<^verbatim>\<open>_status\<close> as it finds it: \<open>status0\<close>.\<close>

definition AlicatMODBUSRTU ::
  "int \<Rightarrow> int \<Rightarrow> 'b \<Rightarrow> serial_item list \<Rightarrow> bool \<Rightarrow> status_flags \<Rightarrow> nat \<Rightarrow> 'b driver" where
  "AlicatMODBUSRTU modbusID deviceType modbus serial verbose status0 bits =
     \<lparr>m_serial = serial, m_modbus = modbus, bus_calls = [], m_verbose = verbose,
      m_registerOffset = - 1, m_modbusID = modbusID, m_deviceType = deviceType,
      m_status = status0, int_bits = bits\<rparr>"

definition setRegisterOffset :: "int \<Rightarrow> 'b driver \<Rightarrow> 'b driver" where
  "setRegisterOffset registerOffset st = st\<lparr>m_registerOffset := registerOffset\<rparr>"

definition setModbusID :: "int \<Rightarrow> 'b driver \<Rightarrow> 'b driver" where
  "setModbusID modbusID st = st\<lparr>m_modbusID := modbusID\<rparr>"

text \<open>
  A sum of two \<^verbatim>\<open>int\<close> values as the compiled code delivers it: the low \<open>bits\<close> bits
  of the exact sum, read as two's complement. (C++ leaves the overflowing case undefined;
  the boards' compilers wrap.) With 32 bits, \<open>2147483647 + 1\<close> is \<open>-2147483648\<close>.
\<close>

definition int_wrap :: "nat \<Rightarrow> int \<Rightarrow> int" where
  "int_wrap bits x = (x + 2 ^ (bits - 1)) mod (2 * 2 ^ (bits - 1)) - 2 ^ (bits - 1)"

definition offsetRegister :: "'b driver \<Rightarrow> int \<Rightarrow> int" where
  "offsetRegister st address = int_wrap (int_bits st) (address + m_registerOffset st)"

text \<open>
  A function that returns through a pointer argument yields \<open>Some v\<close> when it stores
  \<open>v\<close> there and \<open>None\<close> when it returns without storing.
\<close>

definition getDeviceStatisticRegisterAddress ::
  "int \<Rightarrow> 'b driver \<Rightarrow> int option \<times> 'b driver" where
  "getDeviceStatisticRegisterAddress statisticIndex st =
     (if statisticIndex < 1 \<or> statisticIndex > 20
      then (None, verbose_println
        ''ERROR: function:'getDeviceStatisticRegisterAddress', argument statisticIndex is out of bounds''
        st)
      else (Some (REGISTER_DEVICE_STATISTIC_1_VALUE + 2 * (statisticIndex - 1)), st))"

section \<open>Read and write register functions\<close>

definition readSingleRegister ::
  "'b ModbusInterface \<Rightarrow> int \<Rightarrow> 'b driver \<Rightarrow> uint16_t option \<times> 'b driver" where
  "readSingleRegister T registerAddress st =
     (case modbus_read T (offsetRegister st registerAddress) 1 st of
        (None, st1) \<Rightarrow>
          (None, serial_emit (PrintlnInt registerAddress)
                   (serial_emit (Print ''ERROR: Failed to read register: '') st1))
      | (Some response, st1) \<Rightarrow> (Some (response 0), st1))"

text \<open>
  The union of a \<^verbatim>\<open>float\<close> with \<^verbatim>\<open>uint16_t asBytes[2]\<close>, on the little-endian boards
  the Arduino cores target: \<^verbatim>\<open>asBytes[0]\<close> is bits 15:0 and \<^verbatim>\<open>asBytes[1]\<close> is bits 31:16.
\<close>

definition union_asBytes :: "float32 \<Rightarrow> nat \<Rightarrow> uint16_t" where
  "union_asBytes f i = ucast (drop_bit (16 * i) f)"

definition union_asFloat :: "uint16_t \<Rightarrow> uint16_t \<Rightarrow> float32" where
  "union_asFloat asBytes0 asBytes1 = push_bit 16 (ucast asBytes1) OR ucast asBytes0"

definition readRegistersAsFloat ::
  "'b ModbusInterface \<Rightarrow> int \<Rightarrow> 'b driver \<Rightarrow> float32 option \<times> 'b driver" where
  "readRegistersAsFloat T registerAddress st =
     (case modbus_read T (offsetRegister st registerAddress) 2 st of
        (None, st1) \<Rightarrow>
          (None, serial_emit (PrintlnInt registerAddress)
                   (serial_emit (Print ''ERROR: Failed to read register: '') st1))
      | (Some response, st1) \<Rightarrow>
          (let asBytes1 = response 0;
               asBytes0 = response 1
           in (Some (union_asFloat asBytes0 asBytes1), st1)))"

definition writeRegistersAsFloat ::
  "'b ModbusInterface \<Rightarrow> int \<Rightarrow> float32 \<Rightarrow> 'b driver \<Rightarrow> 'b driver" where
  "writeRegistersAsFloat T registerAddress floatValue st =
     (let dataLength = 2;
          data = map (\<lambda>i. union_asBytes floatValue (dataLength - i - 1)) [0..<dataLength]
      in modbus_write T (offsetRegister st registerAddress) data st)"

definition writeSingleRegister ::
  "'b ModbusInterface \<Rightarrow> int \<Rightarrow> uint16_t \<Rightarrow> 'b driver \<Rightarrow> 'b driver" where
  "writeSingleRegister T registerAddress registerValue st =
     modbus_write T (offsetRegister st registerAddress) [registerValue] st"

section \<open>Device type checks\<close>

definition deviceIsMassFlow :: "'b driver \<Rightarrow> bool" where
  "deviceIsMassFlow st \<longleftrightarrow>
     m_deviceType st = DEVICE_TYPE_MASS_FLOW_METER \<or>
     m_deviceType st = DEVICE_TYPE_MASS_FLOW_CONTROLLER"

definition deviceIsController :: "'b driver \<Rightarrow> bool" where
  "deviceIsController st \<longleftrightarrow>
     m_deviceType st = DEVICE_TYPE_PSID_CONTROLLER \<or>
     m_deviceType st = DEVICE_TYPE_GAUGE_PRESSURE_CONTROLLER \<or>
     m_deviceType st = DEVICE_TYPE_MASS_FLOW_CONTROLLER"

definition deviceIsPressureController :: "'b driver \<Rightarrow> bool" where
  "deviceIsPressureController st \<longleftrightarrow>
     m_deviceType st = DEVICE_TYPE_PSID_CONTROLLER \<or>
     m_deviceType st = DEVICE_TYPE_GAUGE_PRESSURE_CONTROLLER"

definition deviceIsLiquid :: "'b driver \<Rightarrow> bool" where
  "deviceIsLiquid st \<longleftrightarrow> m_deviceType st = DEVICE_TYPE_LIQUID_CONTROLLER"


section \<open>Semantic operations\<close>

text \<open>
  A local variable passed by address to a function that may return without storing:
  afterwards it holds the stored value, or still its initial content. The initial
  content of an uninitialised local is indeterminate in C++; each operation with one
  takes that content as an argument (named like the local, with \<open>0\<close> appended).
\<close>

definition assigned :: "'a option \<Rightarrow> 'a \<Rightarrow> 'a" where
  "assigned w initial = (case w of Some v \<Rightarrow> v | None \<Rightarrow> initial)"

definition setSetpoint :: "'b ModbusInterface \<Rightarrow> float32 \<Rightarrow> 'b driver \<Rightarrow> 'b driver" where
  "setSetpoint T setpoint st =
     (if \<not> deviceIsController st
      then verbose_println
        ''ERROR: function, 'setSetpoint' is not used for devices of this type'' st
      else writeRegistersAsFloat T REGISTER_SETPOINT setpoint st)"

definition getSetpoint ::
  "'b ModbusInterface \<Rightarrow> int \<Rightarrow> 'b driver \<Rightarrow> float32 option \<times> 'b driver" where
  "getSetpoint T registerAddress0 st =
     (if \<not> deviceIsController st
      then (None, verbose_println
        ''ERROR: function, 'setSetpoint' is not used for devices of this type'' st)
      else
        (case (if deviceIsMassFlow st then getDeviceStatisticRegisterAddress 5 st
               else if deviceIsPressureController st
                 then getDeviceStatisticRegisterAddress 2 st
               else (None, st)) of
           (w, st1) \<Rightarrow> readRegistersAsFloat T (assigned w registerAddress0) st1))"

definition getPressure ::
  "'b ModbusInterface \<Rightarrow> int \<Rightarrow> 'b driver \<Rightarrow> float32 option \<times> 'b driver" where
  "getPressure T registerAddress0 st =
     (case getDeviceStatisticRegisterAddress 1 st of
        (w, st1) \<Rightarrow> readRegistersAsFloat T (assigned w registerAddress0) st1)"

definition setMixtureGasProperties ::
  "float_ops \<Rightarrow> 'b ModbusInterface \<Rightarrow> int \<Rightarrow> uint16_t \<Rightarrow> float32 \<Rightarrow> 'b driver \<Rightarrow> 'b driver" where
  "setMixtureGasProperties F T mixtureIndex gasIndex gasPercent st =
     (if \<not> deviceIsMassFlow st
      then verbose_println
        ''ERROR: function, 'setMixtureGasProperties' is not used for devices of this type'' st
      else if mixtureIndex < 1 \<or> mixtureIndex > 5
      then verbose_println
        ''ERROR: function, 'setMixtureGasProperties', mixtureIndex must be between 1 and 5'' st
      else if uint gasIndex < 0 \<or> uint gasIndex > 210
      then verbose_println
        ''ERROR: function, 'setMixtureGasProperties', gasIndex must be between 0 and 210'' st
      else if fp_less_0 F gasPercent \<or> fp_greater_100 F gasPercent
      then verbose_println
        ''ERROR: function, 'setMixtureGasProperties', gasPercent must be between 0 and 100'' st
      else
        (let gasIndexRegisterAddress = REGISTER_MIXTURE_GAS_1_INDEX + 2 * (mixtureIndex - 1);
             gasPercentRegisterAddress = gasIndexRegisterAddress + 1;
             st1 = writeSingleRegister T gasIndexRegisterAddress gasIndex st;
             gasPercentInt = fp_round_times_100 F gasPercent
         in writeSingleRegister T gasPercentRegisterAddress gasPercentInt st1))"

text \<open>The result is the pair of stores through \<^verbatim>\<open>gasIndex\<close> and \<^verbatim>\<open>gasPercent\<close>.\<close>

definition getMixtureGasProperties ::
  "float_ops \<Rightarrow> 'b ModbusInterface \<Rightarrow> uint16_t \<Rightarrow> int \<Rightarrow> 'b driver \<Rightarrow>
     (uint16_t option \<times> float32 option) \<times> 'b driver" where
  "getMixtureGasProperties F T gasPercentageInt0 mixtureIndex st =
     (if \<not> deviceIsMassFlow st
      then ((None, None), verbose_println
        ''ERROR: function, 'getMixtureGasProperties' is not used for devices of this type'' st)
      else if mixtureIndex < 1 \<or> mixtureIndex > 5
      then ((None, None), verbose_println
        ''ERROR: function, 'getMixtureGasProperties', mixtureIndex must be between 1 and 5'' st)
      else
        (let gasIndexRegisterAddress = REGISTER_MIXTURE_GAS_1_INDEX + (mixtureIndex - 1);
             gasPercentRegisterAddress = gasIndexRegisterAddress + 1
         in case readSingleRegister T gasIndexRegisterAddress st of
              (gasIndex, st1) \<Rightarrow>
                (case readSingleRegister T gasPercentRegisterAddress st1 of
                   (w, st2) \<Rightarrow>
                     (let gasPercentageInt = assigned w gasPercentageInt0
                      in ((gasIndex, Some (fp_div_100 F gasPercentageInt)), st2)))))"

definition setGasNumber :: "'b ModbusInterface \<Rightarrow> uint16_t \<Rightarrow> 'b driver \<Rightarrow> 'b driver" where
  "setGasNumber T gasIndex st =
     (if \<not> deviceIsMassFlow st
      then verbose_println
        ''ERROR: function, 'setGasNumber' is not used for devices of this type'' st
      else if uint gasIndex < 0 \<or> uint gasIndex > 210
      then verbose_println
        ''ERROR: function, 'setGasNumber', gasIndex must be between 0 and 210'' st
      else writeSingleRegister T REGISTER_GAS_NUMBER gasIndex st)"

definition getGasNumber ::
  "'b ModbusInterface \<Rightarrow> 'b driver \<Rightarrow> uint16_t option \<times> 'b driver" where
  "getGasNumber T st =
     (if \<not> deviceIsMassFlow st
      then (None, verbose_println
        ''ERROR: function, 'getGasNumber' is not used for devices of this type'' st)
      else readSingleRegister T REGISTER_GAS_NUMBER st)"

text \<open>\<^verbatim>\<open>if (flag) _serial.println(msg);\<close>, for a list of flags and messages in order.\<close>

definition println_where :: "(bool \<times> string) list \<Rightarrow> 'b driver \<Rightarrow> 'b driver" where
  "println_where items st =
     foldl (\<lambda>s (flag, msg). if flag then serial_emit (Println msg) s else s) st items"

text \<open>
  Assigning \<^verbatim>\<open>status & BIT\<close> to a \<^verbatim>\<open>bool\<close> member stores whether the value is
  nonzero.
\<close>

definition getStatusFlags :: "'b ModbusInterface \<Rightarrow> uint16_t \<Rightarrow> 'b driver \<Rightarrow> 'b driver" where
  "getStatusFlags T status0 st =
     (case readSingleRegister T REGISTER_DEVICE_STATUS st of
        (w, st1) \<Rightarrow>
          (let status = assigned w status0;
               flags = \<lparr>
                 TEMPERATURE_OVERFLOW = (status AND STATUS_BIT_TEMPERATURE_OVERFLOW \<noteq> 0),
                 TEMPERATURE_UNDERFLOW = (status AND STATUS_BIT_TEMPERATURE_UNDERFLOW \<noteq> 0),
                 VOLUMETRIC_OVERFLOW = (status AND STATUS_BIT_VOLUMETRIC_OVERFLOW \<noteq> 0),
                 VOLUMETRIC_UNDERFLOW = (status AND STATUS_BIT_VOLUMETRIC_UNDERFLOW \<noteq> 0),
                 MASS_OVERFLOW = (status AND STATUS_BIT_MASS_OVERFLOW \<noteq> 0),
                 MASS_UNDERFLOW = (status AND STATUS_BIT_MASS_UNDERFLOW \<noteq> 0),
                 PRESSURE_OVERFLOW = (status AND STATUS_BIT_PRESSURE_OVERFLOW \<noteq> 0),
                 TOTALIZER_OVERFLOW = (status AND STATUS_BIT_TOTALIZER_OVERFLOW \<noteq> 0),
                 PID_LOOP_IN_HOLD = (status AND STATUS_BIT_PID_LOOP_IN_HOLD \<noteq> 0),
                 ADC_ERROR = (status AND STATUS_BIT_ADC_ERROR \<noteq> 0),
                 PID_EXHAUST = (status AND STATUS_BIT_PID_EXHAUST \<noteq> 0),
                 OVER_PRESSURE_LIMIT = (status AND STATUS_BIT_OVER_PRESSURE_LIMIT \<noteq> 0),
                 FLOW_OVERFLOW_DURING_TOTALIZE =
                   (status AND STATUS_BIT_FLOW_OVERFLOW_DURING_TOTALIZE \<noteq> 0),
                 MEASUREMENT_ABORTED = (status AND STATUS_BIT_MEASUREMENT_ABORTED \<noteq> 0),
                 ANY_ERROR = (status > 0)\<rparr>;
               st2 = st1\<lparr>m_status := flags\<rparr>
           in if m_verbose st2
              then println_where
                [(TEMPERATURE_OVERFLOW flags, ''STATUS: TEMPERATURE OVERFLOW bit is set''),
                 (TEMPERATURE_UNDERFLOW flags, ''STATUS: TEMPERATURE UNDERFLOW bit is set''),
                 (VOLUMETRIC_OVERFLOW flags, ''STATUS: VOLUMETRIC OVERFLOW bit is set''),
                 (VOLUMETRIC_UNDERFLOW flags, ''STATUS: VOLUMETRIC UNDERFLOW bit is set''),
                 (MASS_OVERFLOW flags, ''STATUS: MASS OVERFLOW bit is set''),
                 (MASS_UNDERFLOW flags, ''STATUS: MASS UNDERFLOW bit is set''),
                 (PRESSURE_OVERFLOW flags, ''STATUS: PRESSURE OVERFLOW bit is set''),
                 (TOTALIZER_OVERFLOW flags, ''STATUS: TOTALIZER OVERFLOW bit is set''),
                 (PID_LOOP_IN_HOLD flags, ''STATUS: PID LOOP IN HOLD bit is set''),
                 (ADC_ERROR flags, ''STATUS: ADC ERROR bit is set''),
                 (PID_EXHAUST flags, ''STATUS: PID EXHAUST bit is set''),
                 (OVER_PRESSURE_LIMIT flags, ''STATUS: OVER PRESSURE LIMIT bit is set''),
                 (FLOW_OVERFLOW_DURING_TOTALIZE flags,
                    ''STATUS: FLOW OVERFLOW DURING TOTALIZE bit is set''),
                 (MEASUREMENT_ABORTED flags, ''STATUS: MEASUREMENT ABORTED bit is set'')]
                (serial_emit (PrintlnBin status)
                   (serial_emit (Print ''STATUS Bits: '') st2))
              else st2))"

definition getFlowTemperature ::
  "'b ModbusInterface \<Rightarrow> int \<Rightarrow> 'b driver \<Rightarrow> float32 option \<times> 'b driver" where
  "getFlowTemperature T registerAddress0 st =
     (if \<not> deviceIsMassFlow st \<and> \<not> deviceIsLiquid st
      then (None, verbose_println
        ''ERROR: function, 'getFlowTemperature' is not used for devices of this type'' st)
      else
        (case getDeviceStatisticRegisterAddress 2 st of
           (w, st1) \<Rightarrow> readRegistersAsFloat T (assigned w registerAddress0) st1))"

definition getVolumetricFlow ::
  "'b ModbusInterface \<Rightarrow> int \<Rightarrow> 'b driver \<Rightarrow> float32 option \<times> 'b driver" where
  "getVolumetricFlow T registerAddress0 st =
     (if \<not> deviceIsMassFlow st \<and> \<not> deviceIsLiquid st
      then (None, verbose_println
        ''ERROR: function, 'getVolumetricFlow' is not used for devices of this type'' st)
      else
        (case getDeviceStatisticRegisterAddress 3 st of
           (w, st1) \<Rightarrow> readRegistersAsFloat T (assigned w registerAddress0) st1))"

definition getMassFlow ::
  "'b ModbusInterface \<Rightarrow> int \<Rightarrow> 'b driver \<Rightarrow> float32 option \<times> 'b driver" where
  "getMassFlow T registerAddress0 st =
     (if \<not> deviceIsMassFlow st
      then (None, verbose_println
        ''ERROR: function, 'getMassFlow' is not used for devices of this type'' st)
      else
        (case getDeviceStatisticRegisterAddress 4 st of
           (w, st1) \<Rightarrow> readRegistersAsFloat T (assigned w registerAddress0) st1))"

definition getMassTotal ::
  "'b ModbusInterface \<Rightarrow> int \<Rightarrow> 'b driver \<Rightarrow> float32 option \<times> 'b driver" where
  "getMassTotal T registerAddress0 st =
     (if \<not> deviceIsMassFlow st
      then (None, verbose_println
        ''ERROR: function, 'getMassFlow' is not used for devices of this type'' st)
      else
        (case (if deviceIsController st then getDeviceStatisticRegisterAddress 6 st
               else getDeviceStatisticRegisterAddress 5 st) of
           (w, st1) \<Rightarrow> readRegistersAsFloat T (assigned w registerAddress0) st1))"

section \<open>Special commands\<close>

definition handleSpecialCommandStatusCode :: "uint16_t \<Rightarrow> 'b driver \<Rightarrow> bool \<times> 'b driver" where
  "handleSpecialCommandStatusCode status st =
     (if status = STATUS_CODE_SUCCESS then (True, st)
      else if status = STATUS_CODE_INVALID_COMMAND_ID
        then (False, verbose_println ''ERROR: INVALID COMMAND ID'' st)
      else if status = STATUS_CODE_INVALID_SETTING
        then (False, verbose_println ''ERROR: INVALID SETTING'' st)
      else if status = STATUS_CODE_REQUESTED_FEATURE_IS_UNSUPPORTED
        then (False, verbose_println ''ERROR: REQUESTED FEATURE IS UNSUPPORTED'' st)
      else if status = STATUS_CODE_INVALID_GAS_MIX_INDEX
        then (False, verbose_println ''ERROR: INVALID GAS MIX INDEX (MASS FLOW DEVICE)'' st)
      else if status = STATUS_CODE_INVALID_GAS_MIX_CONSTITUENT
        then (False,
          verbose_println ''ERROR: INVALID GAS MIX CONSTITUENT (MASS FLOW DEVICE)'' st)
      else if status = STATUS_CODE_INVALID_GAS_MIX_PERCENTAGE
        then (False,
          verbose_println ''ERROR: INVALID GAS MIX PERCENTAGE (MASS FLOW DEVICE)'' st)
      else (False, verbose_println ''ERROR: UNKNOWN STATUS CODE'' st))"

definition sendSpecialCommand ::
  "'b ModbusInterface \<Rightarrow> uint16_t \<Rightarrow> uint16_t \<Rightarrow> uint16_t \<Rightarrow> 'b driver \<Rightarrow> bool \<times> 'b driver" where
  "sendSpecialCommand T status0 command argument st =
     (let data = [command, argument];
          st1 = modbus_write T (offsetRegister st REGISTER_COMMAND_ID) data st
      in case readSingleRegister T REGISTER_COMMAND_ARGUMENT st1 of
           (w, st2) \<Rightarrow> handleSpecialCommandStatusCode (assigned w status0) st2)"

text \<open>The boolean that \<^verbatim>\<open>sendSpecialCommand\<close> returns is dropped by all five callers.\<close>

definition readPIDValue ::
  "'b ModbusInterface \<Rightarrow> uint16_t \<Rightarrow> uint16_t \<Rightarrow> 'b driver \<Rightarrow> uint16_t option \<times> 'b driver" where
  "readPIDValue T status0 coefficientID st =
     (if \<not> deviceIsController st
      then (None, verbose_println
        ''ERROR: function, 'readPIDValue' is not used for devices of this type'' st)
      else if uint coefficientID < 0 \<or> uint coefficientID > 2
      then (None, verbose_println
        ''ERROR: function:'readPIDValue', argument coefficientID is out of bounds'' st)
      else
        (case sendSpecialCommand T status0 SPECIAL_COMMAND_READ_PID_VALUE coefficientID st of
           (ok, st1) \<Rightarrow> readSingleRegister T REGISTER_COMMAND_ARGUMENT st1))"

definition changeGasNumber ::
  "'b ModbusInterface \<Rightarrow> uint16_t \<Rightarrow> uint16_t \<Rightarrow> 'b driver \<Rightarrow> 'b driver" where
  "changeGasNumber T status0 gasTableIndex st =
     (if \<not> deviceIsMassFlow st
      then verbose_println
        ''ERROR: function, 'changeGasNumber' is not used for devices of this type'' st
      else snd (sendSpecialCommand T status0 SPECIAL_COMMAND_CHANGE_GAS_NUMBER
                  gasTableIndex st))"

definition createCustomGasMixture ::
  "'b ModbusInterface \<Rightarrow> uint16_t \<Rightarrow> uint16_t \<Rightarrow> 'b driver \<Rightarrow> 'b driver" where
  "createCustomGasMixture T status0 gasMixtureIndex st =
     (if \<not> deviceIsMassFlow st
      then verbose_println
        ''ERROR: function, 'createCustomGasMixture' is not used for devices of this type'' st
      else if gasMixtureIndex \<noteq> 0 \<and> (uint gasMixtureIndex < 236 \<or> uint gasMixtureIndex > 255)
      then verbose_println
        ''ERROR: function:'createCustomGasMixture', argument gasMixtureIndex is out of bounds''
        st
      else snd (sendSpecialCommand T status0 SPECIAL_COMMAND_CREATE_CUSTOM_GAS_MIXTURE
                  gasMixtureIndex st))"

definition deleteCustomGasMixture ::
  "'b ModbusInterface \<Rightarrow> uint16_t \<Rightarrow> uint16_t \<Rightarrow> 'b driver \<Rightarrow> 'b driver" where
  "deleteCustomGasMixture T status0 gasMixtureIndex st =
     (if \<not> deviceIsMassFlow st
      then verbose_println
        ''ERROR: function, 'deleteCustomGasMixture' is not used for devices of this type'' st
      else snd (sendSpecialCommand T status0 SPECIAL_COMMAND_DELETE_CUSTOM_GAS_MIXTURE
                  gasMixtureIndex st))"

text \<open>The \<^verbatim>\<open>switch\<close> of \<^verbatim>\<open>tare\<close>: the value of \<^verbatim>\<open>proceed\<close> after it.\<close>

definition tare_proceed :: "uint16_t \<Rightarrow> 'b driver \<Rightarrow> bool" where
  "tare_proceed tareArgument st =
     (if tareArgument = 0 then (if \<not> deviceIsPressureController st then False else True)
      else if tareArgument = 1 then (if \<not> deviceIsPressureController st then False else True)
      else if tareArgument = 2
        then (if \<not> deviceIsMassFlow st \<and> \<not> deviceIsLiquid st then False else True)
      else False)"

definition tare :: "'b ModbusInterface \<Rightarrow> uint16_t \<Rightarrow> uint16_t \<Rightarrow> 'b driver \<Rightarrow> 'b driver" where
  "tare T status0 tareArgument st =
     (let proceed = tare_proceed tareArgument st
      in if \<not> proceed
         then (if m_verbose st
               then serial_emit (PrintlnInt (m_deviceType st))
                      (serial_emit (Print '' for device of type'')
                         (serial_emit (PrintUInt tareArgument)
                            (serial_emit (Print ''ERROR: Incorrect Tare Argument '') st)))
               else st)
         else snd (sendSpecialCommand T status0 SPECIAL_COMMAND_TARE tareArgument st))"

section \<open>Transports and devices to run the driver against\<close>

text \<open>All flags clear.\<close>

definition no_flags :: status_flags where
  "no_flags =
     \<lparr>TEMPERATURE_OVERFLOW = False, TEMPERATURE_UNDERFLOW = False,
      VOLUMETRIC_OVERFLOW = False, VOLUMETRIC_UNDERFLOW = False, MASS_OVERFLOW = False,
      MASS_UNDERFLOW = False, PRESSURE_OVERFLOW = False, TOTALIZER_OVERFLOW = False,
      PID_LOOP_IN_HOLD = False, ADC_ERROR = False, PID_EXHAUST = False,
      OVER_PRESSURE_LIMIT = False, FLOW_OVERFLOW_DURING_TOTALIZE = False,
      MEASUREMENT_ABORTED = False, ANY_ERROR = False\<rparr>"

text \<open>
  A freshly constructed driver with Modbus id 1, verbose output on, nothing printed yet
  and the default register offset of the constructor (-1), on a board with 32-bit
  \<^verbatim>\<open>int\<close>.
\<close>

definition bench_device :: "int \<Rightarrow> 'b \<Rightarrow> 'b driver" where
  "bench_device deviceType modbus = AlicatMODBUSRTU 1 deviceType modbus [] True no_flags 32"

text \<open>
  A transport whose reads return what was last written to each address: the bus state
  is the register file, every call succeeds.
\<close>

definition register_file :: "(int \<Rightarrow> uint16_t) ModbusInterface" where
  "register_file =
     \<lparr>readHoldingRegisterValues =
        (\<lambda>dev address n regs. (Some (\<lambda>i. regs (address + int i)), regs)),
      writeHoldingRegisterValues =
        (\<lambda>dev address ws regs.
           (True, (\<lambda>a. if address \<le> a \<and> a < address + int (length ws)
                         then ws ! nat (a - address) else regs a)))\<rparr>"

text \<open>
  A transport that answers reads from a script: each read consumes the next entry, a
  list of words (success) or \<open>None\<close> (failure); with the script used up every read
  fails. Writes are accepted and change nothing.
\<close>

definition scripted_bus :: "uint16_t list option list ModbusInterface" where
  "scripted_bus =
     \<lparr>readHoldingRegisterValues =
        (\<lambda>dev address n replies.
           case replies of
             [] \<Rightarrow> (None, [])
           | reply # rest \<Rightarrow>
               (map_option (\<lambda>ws i. if i < length ws then ws ! i else 0) reply, rest)),
      writeHoldingRegisterValues = (\<lambda>dev address ws replies. (True, replies))\<rparr>"

text \<open>
  A transport that keeps a list of the calls it receives, with their arguments, as its
  state. Reads succeed with zeros.
\<close>

definition recording_bus :: "bus_call list ModbusInterface" where
  "recording_bus =
     \<lparr>readHoldingRegisterValues =
        (\<lambda>dev address n received.
           (Some (\<lambda>i. 0), received @ [ReadHolding dev address n])),
      writeHoldingRegisterValues =
        (\<lambda>dev address ws received. (True, received @ [WriteHolding dev address ws]))\<rparr>"

section \<open>Basic facts\<close>

lemmas device_type_defs =
  DEVICE_TYPE_MASS_FLOW_CONTROLLER_def DEVICE_TYPE_LIQUID_CONTROLLER_def
  DEVICE_TYPE_MASS_FLOW_METER_def DEVICE_TYPE_PSID_CONTROLLER_def
  DEVICE_TYPE_GAUGE_PRESSURE_CONTROLLER_def

lemmas status_code_defs =
  STATUS_CODE_SUCCESS_def STATUS_CODE_INVALID_COMMAND_ID_def
  STATUS_CODE_INVALID_SETTING_def STATUS_CODE_REQUESTED_FEATURE_IS_UNSUPPORTED_def
  STATUS_CODE_INVALID_GAS_MIX_INDEX_def STATUS_CODE_INVALID_GAS_MIX_CONSTITUENT_def
  STATUS_CODE_INVALID_GAS_MIX_PERCENTAGE_def

lemmas status_bit_defs =
  STATUS_BIT_TEMPERATURE_OVERFLOW_def STATUS_BIT_TEMPERATURE_UNDERFLOW_def
  STATUS_BIT_VOLUMETRIC_OVERFLOW_def STATUS_BIT_VOLUMETRIC_UNDERFLOW_def
  STATUS_BIT_MASS_OVERFLOW_def STATUS_BIT_MASS_UNDERFLOW_def
  STATUS_BIT_PRESSURE_OVERFLOW_def STATUS_BIT_TOTALIZER_OVERFLOW_def
  STATUS_BIT_PID_LOOP_IN_HOLD_def STATUS_BIT_ADC_ERROR_def STATUS_BIT_PID_EXHAUST_def
  STATUS_BIT_OVER_PRESSURE_LIMIT_def STATUS_BIT_FLOW_OVERFLOW_DURING_TOTALIZE_def
  STATUS_BIT_MEASUREMENT_ABORTED_def

lemmas special_command_defs =
  SPECIAL_COMMAND_CHANGE_GAS_NUMBER_def SPECIAL_COMMAND_CREATE_CUSTOM_GAS_MIXTURE_def
  SPECIAL_COMMAND_DELETE_CUSTOM_GAS_MIXTURE_def SPECIAL_COMMAND_TARE_def
  SPECIAL_COMMAND_READ_PID_VALUE_def

lemmas register_defs =
  REGISTER_COMMAND_ID_def REGISTER_COMMAND_ARGUMENT_def REGISTER_SETPOINT_def
  REGISTER_MIXTURE_GAS_1_INDEX_def REGISTER_GAS_NUMBER_def REGISTER_DEVICE_STATUS_def
  REGISTER_DEVICE_STATISTIC_1_VALUE_def

lemmas device_is_defs =
  deviceIsMassFlow_def deviceIsController_def deviceIsPressureController_def
  deviceIsLiquid_def

lemma fields_bench_device [simp]:
  "m_serial (bench_device d b) = []"
  "m_modbus (bench_device d b) = b"
  "bus_calls (bench_device d b) = []"
  "m_verbose (bench_device d b) = True"
  "m_registerOffset (bench_device d b) = - 1"
  "m_modbusID (bench_device d b) = 1"
  "m_deviceType (bench_device d b) = d"
  "m_status (bench_device d b) = no_flags"
  "int_bits (bench_device d b) = 32"
  by (simp_all add: bench_device_def AlicatMODBUSRTU_def)

lemma recording_bus_simps [simp]:
  "readHoldingRegisterValues recording_bus dev address n received =
     (Some (\<lambda>i. 0), received @ [ReadHolding dev address n])"
  "writeHoldingRegisterValues recording_bus dev address ws received =
     (True, received @ [WriteHolding dev address ws])"
  by (simp_all add: recording_bus_def)

subsection \<open>The register offset\<close>

lemma int_wrap_in_range:
  assumes "- (2 ^ (bits - 1)) \<le> x" and "x < 2 ^ (bits - 1)"
  shows "int_wrap bits x = x"
proof -
  have "0 \<le> x + 2 ^ (bits - 1)" and "x + 2 ^ (bits - 1) < 2 * 2 ^ (bits - 1)"
    using assms by simp_all
  then have "(x + 2 ^ (bits - 1)) mod (2 * 2 ^ (bits - 1)) = x + 2 ^ (bits - 1)"
    by (rule mod_pos_pos_trivial)
  then show ?thesis by (simp add: int_wrap_def)
qed

lemma int_wrap_32: "int_wrap 32 x = (x + 2147483648) mod 4294967296 - 2147483648"
  by (simp add: int_wrap_def)


lemma offsetRegister_cong:
  "m_registerOffset st' = m_registerOffset st \<Longrightarrow> int_bits st' = int_bits st \<Longrightarrow>
   offsetRegister st' a = offsetRegister st a"
  by (simp add: offsetRegister_def)

lemma register_file_simps [simp]:
  "readHoldingRegisterValues register_file dev address n regs =
     (Some (\<lambda>i. regs (address + int i)), regs)"
  "writeHoldingRegisterValues register_file dev address ws regs =
     (True, (\<lambda>a. if address \<le> a \<and> a < address + int (length ws)
                   then ws ! nat (a - address) else regs a))"
  by (simp_all add: register_file_def)

lemma scripted_bus_simps [simp]:
  "readHoldingRegisterValues scripted_bus dev address n [] = (None, [])"
  "readHoldingRegisterValues scripted_bus dev address n (None # rest) = (None, rest)"
  "readHoldingRegisterValues scripted_bus dev address n (Some ws # rest) =
     (Some (\<lambda>i. if i < length ws then ws ! i else 0), rest)"
  "writeHoldingRegisterValues scripted_bus dev address ws replies = (True, replies)"
  by (simp_all add: scripted_bus_def)

subsection \<open>The union of a float with two half words\<close>

lemma union_halves: "union_asFloat (union_asBytes f 0) (union_asBytes f 1) = f"
  unfolding union_asFloat_def union_asBytes_def
  by (rule bit_word_eqI) (auto simp: bit_simps)

lemma union_round_trip: "union_asFloat (ucast f) (ucast (drop_bit 16 f)) = f"
  using union_halves [of f] by (simp add: union_asBytes_def)

subsection \<open>What each primitive does on the transport\<close>

lemma verbose_println_fields [simp]:
  "bus_calls (verbose_println msg st) = bus_calls st"
  "m_modbus (verbose_println msg st) = m_modbus st"
  by (simp_all add: verbose_println_def serial_emit_def)

lemma println_where_fields [simp]:
  "m_status (println_where items st) = m_status st"
  "bus_calls (println_where items st) = bus_calls st"
  "m_modbus (println_where items st) = m_modbus st"
  unfolding println_where_def
  by (induction items arbitrary: st; simp add: serial_emit_def split: prod.splits)+

lemma bus_calls_modbus_write:
  "bus_calls (modbus_write T a ws st) = bus_calls st @ [WriteHolding (m_modbusID st) a ws]"
  by (simp add: modbus_write_def split: prod.splits)

lemma fields_modbus_write [simp]:
  "m_modbusID (modbus_write T a ws st) = m_modbusID st"
  "m_registerOffset (modbus_write T a ws st) = m_registerOffset st"
  "m_deviceType (modbus_write T a ws st) = m_deviceType st"
  "m_verbose (modbus_write T a ws st) = m_verbose st"
  "m_serial (modbus_write T a ws st) = m_serial st"
  "int_bits (modbus_write T a ws st) = int_bits st"
  by (simp_all add: modbus_write_def split: prod.splits)

lemma offsetRegister_modbus_write [simp]:
  "offsetRegister (modbus_write T a ws st) x = offsetRegister st x"
  by (simp add: offsetRegister_def)

lemma bus_calls_readSingleRegister:
  "bus_calls (snd (readSingleRegister T a st)) =
     bus_calls st @ [ReadHolding (m_modbusID st) (offsetRegister st a) 1]"
  by (simp add: readSingleRegister_def modbus_read_def serial_emit_def
      split: prod.splits option.splits)

lemma m_modbus_readSingleRegister:
  "m_modbus (snd (readSingleRegister T a st)) =
     snd (readHoldingRegisterValues T (m_modbusID st) (offsetRegister st a) 1 (m_modbus st))"
  by (simp add: readSingleRegister_def modbus_read_def serial_emit_def
      split: prod.splits option.splits)

lemma fst_readSingleRegister:
  "fst (readSingleRegister T a st) =
     map_option (\<lambda>response. response 0)
       (fst (readHoldingRegisterValues T (m_modbusID st) (offsetRegister st a) 1
               (m_modbus st)))"
  by (simp add: readSingleRegister_def modbus_read_def serial_emit_def
      split: prod.splits option.splits)

lemma readSingleRegister_fields [simp]:
  "m_modbusID (snd (readSingleRegister T a st)) = m_modbusID st"
  "m_registerOffset (snd (readSingleRegister T a st)) = m_registerOffset st"
  "m_deviceType (snd (readSingleRegister T a st)) = m_deviceType st"
  "m_verbose (snd (readSingleRegister T a st)) = m_verbose st"
  "m_status (snd (readSingleRegister T a st)) = m_status st"
  "int_bits (snd (readSingleRegister T a st)) = int_bits st"
  by (simp_all add: readSingleRegister_def modbus_read_def serial_emit_def
      split: prod.splits option.splits)

text \<open>What a single-register read stores depends on the bus, the id and the offset only.\<close>

lemma readSingleRegister_fst_cong:
  "m_modbus st' = m_modbus st \<Longrightarrow> m_modbusID st' = m_modbusID st \<Longrightarrow>
   m_registerOffset st' = m_registerOffset st \<Longrightarrow> int_bits st' = int_bits st \<Longrightarrow>
   fst (readSingleRegister T a st') = fst (readSingleRegister T a st)"
  by (simp add: fst_readSingleRegister offsetRegister_def)

lemma readSingleRegister_Some_serial:
  "fst (readSingleRegister T a st) = Some v \<Longrightarrow>
   m_serial (snd (readSingleRegister T a st)) = m_serial st"
  by (auto simp add: readSingleRegister_def modbus_read_def split: prod.splits option.splits)

lemma bus_calls_readRegistersAsFloat:
  "bus_calls (snd (readRegistersAsFloat T a st)) =
     bus_calls st @ [ReadHolding (m_modbusID st) (offsetRegister st a) 2]"
  by (simp add: readRegistersAsFloat_def modbus_read_def serial_emit_def
      split: prod.splits option.splits)

lemma m_modbus_readRegistersAsFloat:
  "m_modbus (snd (readRegistersAsFloat T a st)) =
     snd (readHoldingRegisterValues T (m_modbusID st) (offsetRegister st a) 2 (m_modbus st))"
  by (simp add: readRegistersAsFloat_def modbus_read_def serial_emit_def
      split: prod.splits option.splits)

lemma readRegistersAsFloat_ok:
  "readHoldingRegisterValues T (m_modbusID st) (offsetRegister st a) 2 (m_modbus st) =
     (Some r, b) \<Longrightarrow>
   readRegistersAsFloat T a st =
     (Some (union_asFloat (r 1) (r 0)),
      st\<lparr>m_modbus := b,
         bus_calls := bus_calls st @
           [ReadHolding (m_modbusID st) (offsetRegister st a) 2]\<rparr>)"
  by (simp add: readRegistersAsFloat_def modbus_read_def)

text \<open>The loop of \<^verbatim>\<open>writeRegistersAsFloat\<close> fills \<^verbatim>\<open>data\<close> with the halves swapped.\<close>

lemma writeRegistersAsFloat_data:
  "writeRegistersAsFloat T a f st =
     modbus_write T (offsetRegister st a) [ucast (drop_bit 16 f), ucast f] st"
  by (simp add: writeRegistersAsFloat_def union_asBytes_def upt_rec)

lemma m_modbus_modbus_write:
  "m_modbus (modbus_write T a ws st) =
     snd (writeHoldingRegisterValues T (m_modbusID st) a ws (m_modbus st))"
  by (simp add: modbus_write_def split: prod.splits)

text \<open>A failed transport read makes both read primitives return without storing.\<close>

lemma failed_read_stores_nothing:
  assumes "fst (readHoldingRegisterValues T (m_modbusID st) (offsetRegister st a) n
                  (m_modbus st)) = None"
  shows "n = 1 \<Longrightarrow> fst (readSingleRegister T a st) = None"
    and "n = 2 \<Longrightarrow> fst (readRegistersAsFloat T a st) = None"
  using assms
  by (auto simp add: readSingleRegister_def readRegistersAsFloat_def modbus_read_def
      split: prod.splits option.splits)

subsection \<open>Special commands\<close>

lemma handle_fst:
  "fst (handleSpecialCommandStatusCode s st) \<longleftrightarrow> s = STATUS_CODE_SUCCESS"
  by (simp add: handleSpecialCommandStatusCode_def)

lemma handle_serial:
  "m_serial (snd (handleSpecialCommandStatusCode s st)) =
     m_serial st @
       (if s = STATUS_CODE_SUCCESS \<or> \<not> m_verbose st then []
        else if s = STATUS_CODE_INVALID_COMMAND_ID then [Println ''ERROR: INVALID COMMAND ID'']
        else if s = STATUS_CODE_INVALID_SETTING then [Println ''ERROR: INVALID SETTING'']
        else if s = STATUS_CODE_REQUESTED_FEATURE_IS_UNSUPPORTED
          then [Println ''ERROR: REQUESTED FEATURE IS UNSUPPORTED'']
        else if s = STATUS_CODE_INVALID_GAS_MIX_INDEX
          then [Println ''ERROR: INVALID GAS MIX INDEX (MASS FLOW DEVICE)'']
        else if s = STATUS_CODE_INVALID_GAS_MIX_CONSTITUENT
          then [Println ''ERROR: INVALID GAS MIX CONSTITUENT (MASS FLOW DEVICE)'']
        else if s = STATUS_CODE_INVALID_GAS_MIX_PERCENTAGE
          then [Println ''ERROR: INVALID GAS MIX PERCENTAGE (MASS FLOW DEVICE)'']
        else [Println ''ERROR: UNKNOWN STATUS CODE''])"
  by (simp add: handleSpecialCommandStatusCode_def verbose_println_def serial_emit_def)

lemma handle_fields [simp]:
  "m_modbus (snd (handleSpecialCommandStatusCode s st)) = m_modbus st"
  "bus_calls (snd (handleSpecialCommandStatusCode s st)) = bus_calls st"
  "m_modbusID (snd (handleSpecialCommandStatusCode s st)) = m_modbusID st"
  "m_registerOffset (snd (handleSpecialCommandStatusCode s st)) = m_registerOffset st"
  "m_deviceType (snd (handleSpecialCommandStatusCode s st)) = m_deviceType st"
  "m_verbose (snd (handleSpecialCommandStatusCode s st)) = m_verbose st"
  "int_bits (snd (handleSpecialCommandStatusCode s st)) = int_bits st"
  by (simp_all add: handleSpecialCommandStatusCode_def verbose_println_def serial_emit_def)

lemma sendSpecialCommand_unfold:
  "sendSpecialCommand T status0 c a st =
     handleSpecialCommandStatusCode
       (assigned (fst (readSingleRegister T REGISTER_COMMAND_ARGUMENT
                         (modbus_write T (offsetRegister st REGISTER_COMMAND_ID) [c, a] st)))
          status0)
       (snd (readSingleRegister T REGISTER_COMMAND_ARGUMENT
               (modbus_write T (offsetRegister st REGISTER_COMMAND_ID) [c, a] st)))"
  by (simp add: sendSpecialCommand_def split: prod.splits)

lemma bus_calls_sendSpecialCommand:
  "bus_calls (snd (sendSpecialCommand T status0 c a st)) =
     bus_calls st @
       [WriteHolding (m_modbusID st) (offsetRegister st REGISTER_COMMAND_ID) [c, a],
        ReadHolding (m_modbusID st) (offsetRegister st REGISTER_COMMAND_ARGUMENT) 1]"
  by (simp add: sendSpecialCommand_unfold bus_calls_readSingleRegister
      bus_calls_modbus_write)

lemma m_modbus_sendSpecialCommand:
  "m_modbus (snd (sendSpecialCommand T status0 c a st)) =
     snd (readHoldingRegisterValues T (m_modbusID st)
            (offsetRegister st REGISTER_COMMAND_ARGUMENT) 1
            (snd (writeHoldingRegisterValues T (m_modbusID st)
                    (offsetRegister st REGISTER_COMMAND_ID) [c, a] (m_modbus st))))"
  by (simp add: sendSpecialCommand_unfold m_modbus_readSingleRegister
      m_modbus_modbus_write)

text \<open>With the read-back successful, the result is the classification of what was read.\<close>

lemma sendSpecialCommand_Some:
  assumes "fst (readSingleRegister T REGISTER_COMMAND_ARGUMENT
                  (modbus_write T (offsetRegister st REGISTER_COMMAND_ID) [c, a] st)) = Some s"
  shows "sendSpecialCommand T s0 c a st =
           handleSpecialCommandStatusCode s
             (snd (readSingleRegister T REGISTER_COMMAND_ARGUMENT
                     (modbus_write T (offsetRegister st REGISTER_COMMAND_ID) [c, a] st)))"
  using assms by (simp add: sendSpecialCommand_unfold assigned_def)

text \<open>
  So with a status code \<open>s\<close> read back, the result is true exactly for \<open>s = 0\<close>; 32769
  takes the "invalid command id" case and a code outside the seven known ones the
  "unknown" case (the case taken shows as the line printed when verbose output is on).
\<close>

lemma sendSpecialCommand_classifies_read_back:
  assumes "fst (readSingleRegister T REGISTER_COMMAND_ARGUMENT
                  (modbus_write T (offsetRegister st REGISTER_COMMAND_ID) [c, a] st)) = Some s"
  shows "(fst (sendSpecialCommand T sj c a st) \<longleftrightarrow> s = STATUS_CODE_SUCCESS) \<and>
         (s = 32769 \<longrightarrow>
            fst (sendSpecialCommand T sj c a st) = False \<and>
            m_serial (snd (sendSpecialCommand T sj c a st)) =
              m_serial st @
                (if m_verbose st then [Println ''ERROR: INVALID COMMAND ID''] else [])) \<and>
         (s \<notin> {0, 32769, 32770, 32771, 32772, 32773, 32774} \<longrightarrow>
            fst (sendSpecialCommand T sj c a st) = False \<and>
            m_serial (snd (sendSpecialCommand T sj c a st)) =
              m_serial st @
                (if m_verbose st then [Println ''ERROR: UNKNOWN STATUS CODE''] else []))"
  by (simp add: sendSpecialCommand_Some [OF assms] handle_fst handle_serial status_code_defs
      readSingleRegister_Some_serial [OF assms])

text \<open>With the read-back failed, what is classified is the initial content of the local.\<close>

lemma sendSpecialCommand_None:
  assumes "fst (readSingleRegister T REGISTER_COMMAND_ARGUMENT
                  (modbus_write T (offsetRegister st REGISTER_COMMAND_ID) [c, a] st)) = None"
  shows "fst (sendSpecialCommand T status0 c a st) \<longleftrightarrow> status0 = STATUS_CODE_SUCCESS"
  using assms by (simp add: sendSpecialCommand_unfold assigned_def handle_fst)

lemma tare_proceed_iff:
  "tare_proceed tareArgument st \<longleftrightarrow>
     (tareArgument = 0 \<or> tareArgument = 1) \<and> deviceIsPressureController st \<or>
     tareArgument = 2 \<and> (deviceIsMassFlow st \<or> deviceIsLiquid st)"
  by (auto simp add: tare_proceed_def)

subsection \<open>Status decoding\<close>

lemma getStatusFlags_status:
  assumes "fst (readSingleRegister T REGISTER_DEVICE_STATUS st) = Some w"
  shows "m_status (getStatusFlags T s0 st) =
     \<lparr>TEMPERATURE_OVERFLOW = (w AND 0x0001 \<noteq> 0),
      TEMPERATURE_UNDERFLOW = (w AND 0x0002 \<noteq> 0),
      VOLUMETRIC_OVERFLOW = (w AND 0x0004 \<noteq> 0),
      VOLUMETRIC_UNDERFLOW = (w AND 0x0008 \<noteq> 0),
      MASS_OVERFLOW = (w AND 0x0010 \<noteq> 0),
      MASS_UNDERFLOW = (w AND 0x0020 \<noteq> 0),
      PRESSURE_OVERFLOW = (w AND 0x0040 \<noteq> 0),
      TOTALIZER_OVERFLOW = (w AND 0x0080 \<noteq> 0),
      PID_LOOP_IN_HOLD = (w AND 0x0100 \<noteq> 0),
      ADC_ERROR = (w AND 0x0200 \<noteq> 0),
      PID_EXHAUST = (w AND 0x0400 \<noteq> 0),
      OVER_PRESSURE_LIMIT = (w AND 0x0800 \<noteq> 0),
      FLOW_OVERFLOW_DURING_TOTALIZE = (w AND 0x1000 \<noteq> 0),
      MEASUREMENT_ABORTED = (w AND 0x2000 \<noteq> 0),
      ANY_ERROR = (w \<noteq> 0)\<rparr>"
proof -
  obtain st1 where r: "readSingleRegister T REGISTER_DEVICE_STATUS st = (Some w, st1)"
    using assms by (cases "readSingleRegister T REGISTER_DEVICE_STATUS st") simp
  show ?thesis
    unfolding getStatusFlags_def r
    by (simp add: assigned_def Let_def status_bit_defs word_greater_zero_iff serial_emit_def)
qed

subsection \<open>Gas mixture registers\<close>

text \<open>
  The registers \<^verbatim>\<open>setMixtureGasProperties\<close> writes once its checks pass, and the
  registers \<^verbatim>\<open>getMixtureGasProperties\<close> reads, for any slot in range.
\<close>

lemma setMixtureGasProperties_writes:
  assumes "deviceIsMassFlow st" and "1 \<le> m" and "m \<le> 5" and "uint g \<le> 210"
    and "\<not> fp_less_0 F p" and "\<not> fp_greater_100 F p"
  shows "setMixtureGasProperties F T m g p st =
           writeSingleRegister T (REGISTER_MIXTURE_GAS_1_INDEX + 2 * (m - 1) + 1)
             (fp_round_times_100 F p)
             (writeSingleRegister T (REGISTER_MIXTURE_GAS_1_INDEX + 2 * (m - 1)) g st)"
  using assms by (simp add: setMixtureGasProperties_def Let_def)

lemma getMixtureGasProperties_reads:
  assumes "deviceIsMassFlow st" and "1 \<le> m" and "m \<le> 5"
  shows "bus_calls (snd (getMixtureGasProperties F T j m st)) =
           bus_calls st @
             [ReadHolding (m_modbusID st)
                (offsetRegister st (REGISTER_MIXTURE_GAS_1_INDEX + (m - 1))) 1,
              ReadHolding (m_modbusID st)
                (offsetRegister st (REGISTER_MIXTURE_GAS_1_INDEX + (m - 1) + 1)) 1]"
proof -
  let ?a = "REGISTER_MIXTURE_GAS_1_INDEX + (m - 1)"
  obtain gasIndex st1 where r1: "readSingleRegister T ?a st = (gasIndex, st1)"
    by (cases "readSingleRegister T ?a st")
  obtain w st2 where r2: "readSingleRegister T (?a + 1) st1 = (w, st2)"
    by (cases "readSingleRegister T (?a + 1) st1")
  have c1: "bus_calls st1 =
      bus_calls st @ [ReadHolding (m_modbusID st) (offsetRegister st ?a) 1]"
    using bus_calls_readSingleRegister [of T ?a st] r1 by simp
  have f1: "m_modbusID st1 = m_modbusID st" "m_registerOffset st1 = m_registerOffset st"
    "int_bits st1 = int_bits st"
    using readSingleRegister_fields(1,2,6) [of T ?a st] r1 by simp_all
  have c2: "bus_calls st2 =
      bus_calls st1 @ [ReadHolding (m_modbusID st1) (offsetRegister st1 (?a + 1)) 1]"
    using bus_calls_readSingleRegister [of T "?a + 1" st1] r2 by simp
  have o: "offsetRegister st1 (?a + 1) = offsetRegister st (?a + 1)"
    by (rule offsetRegister_cong) (simp_all add: f1)
  show ?thesis
    using assms r2 c2 o by (simp add: getMixtureGasProperties_def Let_def r1 c1 f1)
qed

section \<open>The claims\<close>

text \<open>
  C1. Capability gating. On a device whose type does not satisfy an operation's
  capability predicate, the operation makes no transport call: the record of transport
  calls is what it was, and an operation that returns through a pointer stores nothing.
  This holds for any device-type tag (so for each of the five defined ones) and any
  transport. The operations are grouped by their gate: controllers only
  (\<^verbatim>\<open>setSetpoint\<close>, \<^verbatim>\<open>getSetpoint\<close>, \<^verbatim>\<open>readPIDValue\<close>); mass-flow or liquid
  (\<^verbatim>\<open>getFlowTemperature\<close>, \<^verbatim>\<open>getVolumetricFlow\<close>); mass-flow only (\<^verbatim>\<open>getMassFlow\<close>,
  \<^verbatim>\<open>getMassTotal\<close>, \<^verbatim>\<open>getGasNumber\<close>, \<^verbatim>\<open>setGasNumber\<close>, \<^verbatim>\<open>setMixtureGasProperties\<close>,
  \<^verbatim>\<open>getMixtureGasProperties\<close>, \<^verbatim>\<open>changeGasNumber\<close>, \<^verbatim>\<open>createCustomGasMixture\<close>,
  \<^verbatim>\<open>deleteCustomGasMixture\<close>); and \<^verbatim>\<open>tare\<close>, whose gate depends on the argument:
  0 or 1 need a pressure controller, 2 needs a mass-flow or liquid device, anything else
  is refused.
\<close>

theorem capability_gate_no_transport_calls:
  "(\<not> deviceIsController st \<longrightarrow>
      bus_calls (setSetpoint T v st) = bus_calls st \<and>
      fst (getSetpoint T ra st) = None \<and>
      bus_calls (snd (getSetpoint T ra st)) = bus_calls st \<and>
      fst (readPIDValue T sj x st) = None \<and>
      bus_calls (snd (readPIDValue T sj x st)) = bus_calls st) \<and>
   (\<not> deviceIsMassFlow st \<and> \<not> deviceIsLiquid st \<longrightarrow>
      fst (getFlowTemperature T ra st) = None \<and>
      bus_calls (snd (getFlowTemperature T ra st)) = bus_calls st \<and>
      fst (getVolumetricFlow T ra st) = None \<and>
      bus_calls (snd (getVolumetricFlow T ra st)) = bus_calls st) \<and>
   (\<not> deviceIsMassFlow st \<longrightarrow>
      fst (getMassFlow T ra st) = None \<and>
      bus_calls (snd (getMassFlow T ra st)) = bus_calls st \<and>
      fst (getMassTotal T ra st) = None \<and>
      bus_calls (snd (getMassTotal T ra st)) = bus_calls st \<and>
      fst (getGasNumber T st) = None \<and>
      bus_calls (snd (getGasNumber T st)) = bus_calls st \<and>
      bus_calls (setGasNumber T x st) = bus_calls st \<and>
      bus_calls (setMixtureGasProperties F T m x v st) = bus_calls st \<and>
      fst (getMixtureGasProperties F T j m st) = (None, None) \<and>
      bus_calls (snd (getMixtureGasProperties F T j m st)) = bus_calls st \<and>
      bus_calls (changeGasNumber T sj x st) = bus_calls st \<and>
      bus_calls (createCustomGasMixture T sj x st) = bus_calls st \<and>
      bus_calls (deleteCustomGasMixture T sj x st) = bus_calls st) \<and>
   (\<not> ((x = 0 \<or> x = 1) \<and> deviceIsPressureController st \<or>
        x = 2 \<and> (deviceIsMassFlow st \<or> deviceIsLiquid st)) \<longrightarrow>
      bus_calls (tare T sj x st) = bus_calls st)"
proof -
  have controller: "\<not> deviceIsController st \<Longrightarrow>
      bus_calls (setSetpoint T v st) = bus_calls st \<and>
      fst (getSetpoint T ra st) = None \<and>
      bus_calls (snd (getSetpoint T ra st)) = bus_calls st \<and>
      fst (readPIDValue T sj x st) = None \<and>
      bus_calls (snd (readPIDValue T sj x st)) = bus_calls st"
    by (simp add: setSetpoint_def getSetpoint_def readPIDValue_def)
  have flow: "\<not> deviceIsMassFlow st \<and> \<not> deviceIsLiquid st \<Longrightarrow>
      fst (getFlowTemperature T ra st) = None \<and>
      bus_calls (snd (getFlowTemperature T ra st)) = bus_calls st \<and>
      fst (getVolumetricFlow T ra st) = None \<and>
      bus_calls (snd (getVolumetricFlow T ra st)) = bus_calls st"
    by (simp add: getFlowTemperature_def getVolumetricFlow_def)
  have mass_reads: "\<not> deviceIsMassFlow st \<Longrightarrow>
      fst (getMassFlow T ra st) = None \<and>
      bus_calls (snd (getMassFlow T ra st)) = bus_calls st \<and>
      fst (getMassTotal T ra st) = None \<and>
      bus_calls (snd (getMassTotal T ra st)) = bus_calls st \<and>
      fst (getGasNumber T st) = None \<and>
      bus_calls (snd (getGasNumber T st)) = bus_calls st \<and>
      fst (getMixtureGasProperties F T j m st) = (None, None) \<and>
      bus_calls (snd (getMixtureGasProperties F T j m st)) = bus_calls st"
    by (simp add: getMassFlow_def getMassTotal_def getGasNumber_def
        getMixtureGasProperties_def)
  have mass_writes: "\<not> deviceIsMassFlow st \<Longrightarrow>
      bus_calls (setGasNumber T x st) = bus_calls st \<and>
      bus_calls (setMixtureGasProperties F T m x v st) = bus_calls st \<and>
      bus_calls (changeGasNumber T sj x st) = bus_calls st \<and>
      bus_calls (createCustomGasMixture T sj x st) = bus_calls st \<and>
      bus_calls (deleteCustomGasMixture T sj x st) = bus_calls st"
    by (simp add: setGasNumber_def setMixtureGasProperties_def changeGasNumber_def
        createCustomGasMixture_def deleteCustomGasMixture_def)
  have gate: "\<not> tare_proceed x st \<Longrightarrow> bus_calls (tare T sj x st) = bus_calls st"
    by (simp add: tare_def serial_emit_def)
  from controller flow mass_reads mass_writes gate show ?thesis
    unfolding tare_proceed_iff by blast
qed

theorem capability_gate_no_transport_calls_witness:
  "bus_calls (setSetpoint scripted_bus 0x42480000
     (bench_device DEVICE_TYPE_MASS_FLOW_METER [Some [1, 2]])) = [] \<and>
   fst (getSetpoint scripted_bus 0
     (bench_device DEVICE_TYPE_LIQUID_CONTROLLER [Some [1, 2]])) = None \<and>
   bus_calls (snd (getSetpoint scripted_bus 0
     (bench_device DEVICE_TYPE_LIQUID_CONTROLLER [Some [1, 2]]))) = [] \<and>
   fst (getMassFlow scripted_bus 0
     (bench_device DEVICE_TYPE_PSID_CONTROLLER [Some [1, 2]])) = None \<and>
   bus_calls (snd (getMassFlow scripted_bus 0
     (bench_device DEVICE_TYPE_PSID_CONTROLLER [Some [1, 2]]))) = [] \<and>
   bus_calls (snd (getFlowTemperature scripted_bus 0
     (bench_device DEVICE_TYPE_GAUGE_PRESSURE_CONTROLLER [Some [1, 2]]))) = [] \<and>
   bus_calls (tare scripted_bus 0 2
     (bench_device DEVICE_TYPE_PSID_CONTROLLER [Some [1, 2]])) = [] \<and>
   bus_calls (tare scripted_bus 0 0
     (bench_device DEVICE_TYPE_MASS_FLOW_CONTROLLER [Some [1, 2]])) = [] \<and>
   bus_calls (tare scripted_bus 0 3
     (bench_device DEVICE_TYPE_LIQUID_CONTROLLER [Some [1, 2]])) = []"
  using
    capability_gate_no_transport_calls
      [where st = "bench_device DEVICE_TYPE_MASS_FLOW_METER [Some [1, 2]]"
        and T = scripted_bus and v = "0x42480000" and ra = 0 and sj = 0 and x = 0]
    capability_gate_no_transport_calls
      [where st = "bench_device DEVICE_TYPE_LIQUID_CONTROLLER [Some [1, 2]]"
        and T = scripted_bus and v = "0x42480000" and ra = 0 and sj = 0 and x = 3]
    capability_gate_no_transport_calls
      [where st = "bench_device DEVICE_TYPE_PSID_CONTROLLER [Some [1, 2]]"
        and T = scripted_bus and v = "0x42480000" and ra = 0 and sj = 0 and x = 2]
    capability_gate_no_transport_calls
      [where st = "bench_device DEVICE_TYPE_GAUGE_PRESSURE_CONTROLLER [Some [1, 2]]"
        and T = scripted_bus and v = "0x42480000" and ra = 0 and sj = 0 and x = 2]
    capability_gate_no_transport_calls
      [where st = "bench_device DEVICE_TYPE_MASS_FLOW_CONTROLLER [Some [1, 2]]"
        and T = scripted_bus and v = "0x42480000" and ra = 0 and sj = 0 and x = 0]
  by (simp add: device_is_defs device_type_defs)

text \<open>
  C2. The claim is that \<^verbatim>\<open>getMixtureGasProperties\<close> reads the registers that
  \<^verbatim>\<open>setMixtureGasProperties\<close> writes, for every slot 1..5, so that a set followed by a
  get returns the gas index that was set. The code does not do that for slots 2..5: the
  setter addresses slot \<open>m\<close> at \<open>1050 + 2 * (m - 1)\<close>, the getter at \<open>1050 + (m - 1)\<close>
  (lemmas \<open>setMixtureGasProperties_writes\<close> and \<open>getMixtureGasProperties_reads\<close>). The
  theorem runs the code for slot 2 on a mass-flow controller over a register file that
  starts at zero: after setting gas index 47, the getter returns gas index 0, and its
  percent is computed from the register that holds the gas index (from 0 if the setter
  refused the percent). With the default offset -1 the setter's writes go to transport
  addresses 1051 and 1052, the getter's reads to 1050 and 1051.
\<close>

theorem getMixtureGasProperties_slot_2_after_set:
  "fst (getMixtureGasProperties F register_file j 2
          (setMixtureGasProperties F register_file 2 47 p
             (bench_device DEVICE_TYPE_MASS_FLOW_CONTROLLER (\<lambda>a. 0)))) =
     (Some 0, Some (fp_div_100 F (if fp_less_0 F p \<or> fp_greater_100 F p then 0 else 47))) \<and>
   bus_calls (snd (getMixtureGasProperties F register_file j 2
          (setMixtureGasProperties F register_file 2 47 p
             (bench_device DEVICE_TYPE_MASS_FLOW_CONTROLLER (\<lambda>a. 0))))) =
     (if fp_less_0 F p \<or> fp_greater_100 F p then []
      else [WriteHolding 1 1051 [47], WriteHolding 1 1052 [fp_round_times_100 F p]]) @
     [ReadHolding 1 1050 1, ReadHolding 1 1051 1]"
  by (simp add: getMixtureGasProperties_def setMixtureGasProperties_def Let_def
      writeSingleRegister_def readSingleRegister_def modbus_read_def modbus_write_def
      offsetRegister_def int_wrap_32 verbose_println_def serial_emit_def assigned_def
      device_is_defs device_type_defs REGISTER_MIXTURE_GAS_1_INDEX_def)

text \<open>
  C3. The claim is that a read-style operation stores nothing through its output
  pointers when the transport read fails. That holds for the two read primitives (lemma
  \<open>failed_read_stores_nothing\<close>) and the operations that end in one of them, but not for
  \<^verbatim>\<open>getMixtureGasProperties\<close>: it ignores whether the read of the percent register
  stored anything and always assigns \<^verbatim>\<open>*gasPercent\<close>, from the local
  \<^verbatim>\<open>gasPercentageInt\<close>, which a failed read leaves at its indeterminate initial content
  \<open>j\<close>. The theorem runs it on a mass-flow meter whose reads all fail, and on one whose
  first read succeeds and second fails.
\<close>

theorem getMixtureGasProperties_failed_read_stores_percent:
  "fst (getMixtureGasProperties F scripted_bus j 1
          (bench_device DEVICE_TYPE_MASS_FLOW_METER [])) = (None, Some (fp_div_100 F j)) \<and>
   fst (getMixtureGasProperties F scripted_bus j 1
          (bench_device DEVICE_TYPE_MASS_FLOW_METER [Some [47], None])) =
     (Some 47, Some (fp_div_100 F j))"
  by (simp add: getMixtureGasProperties_def Let_def readSingleRegister_def modbus_read_def
      offsetRegister_def int_wrap_32 serial_emit_def assigned_def device_is_defs device_type_defs)

text \<open>
  C4. Float round trip. \<^verbatim>\<open>writeRegistersAsFloat\<close> makes one 2-register write whose
  first word is bits 31:16 of the float and whose second word is bits 15:0; and when a
  2-register read succeeds with those two words in that order, \<^verbatim>\<open>readRegistersAsFloat\<close>
  stores exactly the original 32-bit pattern.
\<close>

theorem float_registers_round_trip:
  "bus_calls (writeRegistersAsFloat T a f st) =
     bus_calls st @ [WriteHolding (m_modbusID st) (offsetRegister st a)
                       [ucast (drop_bit 16 f), ucast f]] \<and>
   ((\<exists>r b. readHoldingRegisterValues T (m_modbusID st') (offsetRegister st' a') 2
              (m_modbus st') = (Some r, b) \<and>
           r 0 = ucast (drop_bit 16 f) \<and> r 1 = ucast f) \<longrightarrow>
    fst (readRegistersAsFloat T a' st') = Some f)"
  by (auto simp add: writeRegistersAsFloat_data bus_calls_modbus_write
      readRegistersAsFloat_ok union_round_trip)

theorem float_registers_round_trip_witness:
  "bus_calls (writeRegistersAsFloat register_file 1010 0x42480000 (bench_device 0 (\<lambda>a. 0))) =
     [WriteHolding 1 1009 [0x4248, 0x0000]] \<and>
   fst (readRegistersAsFloat register_file 1010
          (writeRegistersAsFloat register_file 1010 0x42480000 (bench_device 0 (\<lambda>a. 0)))) =
     Some 0x42480000"
  using float_registers_round_trip
    [of register_file 1010 "0x42480000" "bench_device 0 (\<lambda>a. 0)"
      "writeRegistersAsFloat register_file 1010 0x42480000 (bench_device 0 (\<lambda>a. 0))" 1010]
  by (simp add: offsetRegister_def int_wrap_32 writeRegistersAsFloat_data modbus_write_def)

text \<open>
  C5, as stated, makes \<^verbatim>\<open>offsetRegister\<close> return the sum of address and offset for
  every address and every offset. The function adds two \<^verbatim>\<open>int\<close> values, so that fails
  where the sum leaves the range of \<^verbatim>\<open>int\<close>: on a board with 32-bit \<^verbatim>\<open>int\<close>, address
  2147483647 with offset 1 gives -2147483648.
\<close>

theorem offsetRegister_sum_counterexample:
  "offsetRegister (setRegisterOffset 1 (bench_device DEVICE_TYPE_MASS_FLOW_CONTROLLER ()))
     2147483647 = - 2147483648 \<and>
   offsetRegister (setRegisterOffset 1 (bench_device DEVICE_TYPE_MASS_FLOW_CONTROLLER ()))
     2147483647 \<noteq>
   2147483647 + m_registerOffset
     (setRegisterOffset 1 (bench_device DEVICE_TYPE_MASS_FLOW_CONTROLLER ()))"
  by (simp add: offsetRegister_def int_wrap_32 setRegisterOffset_def)

text \<open>
  C5, amended. For every register address and configured offset whose sum is in the
  range of the board's \<^verbatim>\<open>int\<close>, \<^verbatim>\<open>offsetRegister\<close> returns that sum. And each of the
  five operations that call the transport passes it the offset-corrected address
  \<^verbatim>\<open>offsetRegister(address)\<close>, never the raw one: the bus is left in the state that the
  transport's own method returns when called with the device id, the offset-corrected
  address and the count or data (for every transport, so the arguments it receives are
  these), what a single-register read stores is word 0 of that call's response, and the
  record of calls lists exactly these calls. \<^verbatim>\<open>sendSpecialCommand\<close> writes the pair at
  the corrected command register and then reads the corrected argument register. (No
  other function of the driver calls the transport.)
\<close>

theorem transport_calls_use_offset_address:
  "(- (2 ^ (int_bits st - 1)) \<le> a + m_registerOffset st \<and>
    a + m_registerOffset st < 2 ^ (int_bits st - 1) \<longrightarrow>
      offsetRegister st a = a + m_registerOffset st) \<and>
   m_modbus (snd (readSingleRegister T a st)) =
     snd (readHoldingRegisterValues T (m_modbusID st) (offsetRegister st a) 1 (m_modbus st)) \<and>
   fst (readSingleRegister T a st) =
     map_option (\<lambda>response. response 0)
       (fst (readHoldingRegisterValues T (m_modbusID st) (offsetRegister st a) 1
               (m_modbus st))) \<and>
   bus_calls (snd (readSingleRegister T a st)) =
     bus_calls st @ [ReadHolding (m_modbusID st) (offsetRegister st a) 1] \<and>
   m_modbus (snd (readRegistersAsFloat T a st)) =
     snd (readHoldingRegisterValues T (m_modbusID st) (offsetRegister st a) 2 (m_modbus st)) \<and>
   bus_calls (snd (readRegistersAsFloat T a st)) =
     bus_calls st @ [ReadHolding (m_modbusID st) (offsetRegister st a) 2] \<and>
   m_modbus (writeRegistersAsFloat T a f st) =
     snd (writeHoldingRegisterValues T (m_modbusID st) (offsetRegister st a)
            [ucast (drop_bit 16 f), ucast f] (m_modbus st)) \<and>
   bus_calls (writeRegistersAsFloat T a f st) =
     bus_calls st @ [WriteHolding (m_modbusID st) (offsetRegister st a)
                       [ucast (drop_bit 16 f), ucast f]] \<and>
   m_modbus (writeSingleRegister T a v st) =
     snd (writeHoldingRegisterValues T (m_modbusID st) (offsetRegister st a) [v]
            (m_modbus st)) \<and>
   bus_calls (writeSingleRegister T a v st) =
     bus_calls st @ [WriteHolding (m_modbusID st) (offsetRegister st a) [v]] \<and>
   m_modbus (snd (sendSpecialCommand T sj c arg st)) =
     snd (readHoldingRegisterValues T (m_modbusID st)
            (offsetRegister st REGISTER_COMMAND_ARGUMENT) 1
            (snd (writeHoldingRegisterValues T (m_modbusID st)
                    (offsetRegister st REGISTER_COMMAND_ID) [c, arg] (m_modbus st)))) \<and>
   bus_calls (snd (sendSpecialCommand T sj c arg st)) =
     bus_calls st @
       [WriteHolding (m_modbusID st) (offsetRegister st REGISTER_COMMAND_ID) [c, arg],
        ReadHolding (m_modbusID st) (offsetRegister st REGISTER_COMMAND_ARGUMENT) 1]"
proof -
  have sum: "- (2 ^ (int_bits st - 1)) \<le> a + m_registerOffset st \<and>
      a + m_registerOffset st < 2 ^ (int_bits st - 1) \<longrightarrow>
      offsetRegister st a = a + m_registerOffset st"
    by (simp add: offsetRegister_def int_wrap_in_range)
  have reads: "m_modbus (snd (readSingleRegister T a st)) =
      snd (readHoldingRegisterValues T (m_modbusID st) (offsetRegister st a) 1 (m_modbus st))"
    "fst (readSingleRegister T a st) =
      map_option (\<lambda>response. response 0)
        (fst (readHoldingRegisterValues T (m_modbusID st) (offsetRegister st a) 1
                (m_modbus st)))"
    "bus_calls (snd (readSingleRegister T a st)) =
      bus_calls st @ [ReadHolding (m_modbusID st) (offsetRegister st a) 1]"
    "m_modbus (snd (readRegistersAsFloat T a st)) =
      snd (readHoldingRegisterValues T (m_modbusID st) (offsetRegister st a) 2 (m_modbus st))"
    "bus_calls (snd (readRegistersAsFloat T a st)) =
      bus_calls st @ [ReadHolding (m_modbusID st) (offsetRegister st a) 2]"
    by (simp_all only: m_modbus_readSingleRegister fst_readSingleRegister
        bus_calls_readSingleRegister m_modbus_readRegistersAsFloat
        bus_calls_readRegistersAsFloat)
  have writes: "m_modbus (writeRegistersAsFloat T a f st) =
      snd (writeHoldingRegisterValues T (m_modbusID st) (offsetRegister st a)
             [ucast (drop_bit 16 f), ucast f] (m_modbus st))"
    "bus_calls (writeRegistersAsFloat T a f st) =
      bus_calls st @ [WriteHolding (m_modbusID st) (offsetRegister st a)
                        [ucast (drop_bit 16 f), ucast f]]"
    "m_modbus (writeSingleRegister T a v st) =
      snd (writeHoldingRegisterValues T (m_modbusID st) (offsetRegister st a) [v]
             (m_modbus st))"
    "bus_calls (writeSingleRegister T a v st) =
      bus_calls st @ [WriteHolding (m_modbusID st) (offsetRegister st a) [v]]"
    by (simp_all only: writeRegistersAsFloat_data writeSingleRegister_def
        m_modbus_modbus_write bus_calls_modbus_write)
  have command: "m_modbus (snd (sendSpecialCommand T sj c arg st)) =
      snd (readHoldingRegisterValues T (m_modbusID st)
             (offsetRegister st REGISTER_COMMAND_ARGUMENT) 1
             (snd (writeHoldingRegisterValues T (m_modbusID st)
                     (offsetRegister st REGISTER_COMMAND_ID) [c, arg] (m_modbus st))))"
    "bus_calls (snd (sendSpecialCommand T sj c arg st)) =
      bus_calls st @
        [WriteHolding (m_modbusID st) (offsetRegister st REGISTER_COMMAND_ID) [c, arg],
         ReadHolding (m_modbusID st) (offsetRegister st REGISTER_COMMAND_ARGUMENT) 1]"
    by (simp_all only: m_modbus_sendSpecialCommand bus_calls_sendSpecialCommand)
  show ?thesis
    by (intro conjI) (rule sum reads writes command)+
qed

theorem transport_calls_use_offset_address_witness:
  "offsetRegister (setRegisterOffset 100 (bench_device 0 ([] :: bus_call list))) 1201 =
     1301 \<and>
   m_modbus (snd (readSingleRegister recording_bus 1201
     (setRegisterOffset 100 (bench_device 0 [])))) = [ReadHolding 1 1301 1] \<and>
   m_modbus (snd (readRegistersAsFloat recording_bus 1211 (bench_device 0 []))) =
     [ReadHolding 1 1210 2] \<and>
   m_modbus (writeRegistersAsFloat recording_bus 1010 0x42480000 (bench_device 0 [])) =
     [WriteHolding 1 1009 [0x4248, 0]] \<and>
   m_modbus (writeSingleRegister recording_bus 1200 7
     (setRegisterOffset 100 (bench_device 0 []))) = [WriteHolding 1 1300 [7]] \<and>
   m_modbus (snd (sendSpecialCommand recording_bus 0 4 2 (bench_device 0 []))) =
     [WriteHolding 1 999 [4, 2], ReadHolding 1 1000 1] \<and>
   bus_calls (snd (sendSpecialCommand recording_bus 0 4 2 (bench_device 0 []))) =
     [WriteHolding 1 999 [4, 2], ReadHolding 1 1000 1]"
proof -
  have o: "offsetRegister (setRegisterOffset 100 (bench_device 0 ([] :: bus_call list))) 1201 =
      1301"
    using transport_calls_use_offset_address
      [of "setRegisterOffset 100 (bench_device 0 ([] :: bus_call list))" 1201
        recording_bus 0 0 0 4 2]
    by (simp add: setRegisterOffset_def)
  have o': "offsetRegister (setRegisterOffset 100 (bench_device 0 ([] :: bus_call list))) 1200 =
      1300"
    using transport_calls_use_offset_address
      [of "setRegisterOffset 100 (bench_device 0 ([] :: bus_call list))" 1200
        recording_bus 0 0 0 4 2]
    by (simp add: setRegisterOffset_def)
  have b: "offsetRegister (bench_device 0 ([] :: bus_call list)) 1211 = 1210"
    "offsetRegister (bench_device 0 ([] :: bus_call list)) 1010 = 1009"
    "offsetRegister (bench_device 0 ([] :: bus_call list)) 1000 = 999"
    "offsetRegister (bench_device 0 ([] :: bus_call list)) 1001 = 1000"
    using transport_calls_use_offset_address
        [of "bench_device 0 ([] :: bus_call list)" 1211 recording_bus 0 0 0 4 2]
      transport_calls_use_offset_address
        [of "bench_device 0 ([] :: bus_call list)" 1010 recording_bus 0 0 0 4 2]
      transport_calls_use_offset_address
        [of "bench_device 0 ([] :: bus_call list)" 1000 recording_bus 0 0 0 4 2]
      transport_calls_use_offset_address
        [of "bench_device 0 ([] :: bus_call list)" 1001 recording_bus 0 0 0 4 2]
    by simp_all
  show ?thesis
    using transport_calls_use_offset_address
        [of "setRegisterOffset 100 (bench_device 0 [])" 1201 recording_bus 0 0 0 4 2]
      transport_calls_use_offset_address
        [of "setRegisterOffset 100 (bench_device 0 [])" 1200 recording_bus 0 7 0 4 2]
      transport_calls_use_offset_address
        [of "bench_device 0 []" 1211 recording_bus 0 0 0 4 2]
      transport_calls_use_offset_address
        [of "bench_device 0 []" 1010 recording_bus "0x42480000" 0 0 4 2]
    by (simp add: o o' b register_defs setRegisterOffset_def)
qed

text \<open>
  C6. The claim is that \<^verbatim>\<open>sendSpecialCommand\<close> returns true if and only if the status
  code read back from the command-argument register is 0. Where the read-back succeeds
  that is what the code does, and codes 32769 and the unknown ones are classified as
  claimed (lemma \<open>sendSpecialCommand_classifies_read_back\<close>). But the code classifies its
  local \<^verbatim>\<open>status\<close> whether or not the read-back stored into it: after a failed read the
  local still has its indeterminate initial content \<open>status0\<close>, and the command returns
  true when that is 0 (lemma \<open>sendSpecialCommand_None\<close>), with no status code read back
  at all. The theorem runs a tare command on a PSID controller whose read-back fails:
  the read error is printed and the result is true for initial content 0, false for
  initial content 32770.
\<close>

theorem sendSpecialCommand_failed_read_back_returns_true:
  "fst (sendSpecialCommand scripted_bus 0 SPECIAL_COMMAND_TARE 0
          (bench_device DEVICE_TYPE_PSID_CONTROLLER [None])) = True \<and>
   m_serial (snd (sendSpecialCommand scripted_bus 0 SPECIAL_COMMAND_TARE 0
          (bench_device DEVICE_TYPE_PSID_CONTROLLER [None]))) =
     [Print ''ERROR: Failed to read register: '', PrintlnInt 1001] \<and>
   bus_calls (snd (sendSpecialCommand scripted_bus 0 SPECIAL_COMMAND_TARE 0
          (bench_device DEVICE_TYPE_PSID_CONTROLLER [None]))) =
     [WriteHolding 1 999 [4, 0], ReadHolding 1 1000 1] \<and>
   fst (sendSpecialCommand scripted_bus 32770 SPECIAL_COMMAND_TARE 0
          (bench_device DEVICE_TYPE_PSID_CONTROLLER [None])) = False"
  by (simp add: sendSpecialCommand_def readSingleRegister_def modbus_read_def
      modbus_write_def offsetRegister_def int_wrap_32 serial_emit_def assigned_def
      handleSpecialCommandStatusCode_def verbose_println_def status_code_defs
      register_defs SPECIAL_COMMAND_TARE_def)

text \<open>
  C7. Statistic register address. For an index in 1..20,
  \<^verbatim>\<open>getDeviceStatisticRegisterAddress\<close> stores \<open>1203 + 2 * (index - 1)\<close> and changes
  nothing else; index 1 gives 1203 and index 20 gives 1203 + 38. For an index outside
  1..20 it stores nothing, makes no transport call and leaves the bus as it was; the error
  is reported the way the driver reports an argument out of range, as a line on the
  serial sink when verbose output is on.
\<close>

theorem getDeviceStatisticRegisterAddress_range:
  "(1 \<le> i \<and> i \<le> 20 \<longrightarrow>
      getDeviceStatisticRegisterAddress i st =
        (Some (REGISTER_DEVICE_STATISTIC_1_VALUE + 2 * (i - 1)), st)) \<and>
   (i < 1 \<or> 20 < i \<longrightarrow>
      fst (getDeviceStatisticRegisterAddress i st) = None \<and>
      bus_calls (snd (getDeviceStatisticRegisterAddress i st)) = bus_calls st \<and>
      m_modbus (snd (getDeviceStatisticRegisterAddress i st)) = m_modbus st \<and>
      m_serial (snd (getDeviceStatisticRegisterAddress i st)) =
        m_serial st @
          (if m_verbose st
           then [Println ''ERROR: function:'getDeviceStatisticRegisterAddress', argument statisticIndex is out of bounds'']
           else [])) \<and>
   fst (getDeviceStatisticRegisterAddress 1 st) = Some 1203 \<and>
   fst (getDeviceStatisticRegisterAddress 20 st) = Some (1203 + 38)"
  by (auto simp add: getDeviceStatisticRegisterAddress_def verbose_println_def serial_emit_def
      REGISTER_DEVICE_STATISTIC_1_VALUE_def)

theorem getDeviceStatisticRegisterAddress_range_witness:
  "getDeviceStatisticRegisterAddress 7 (bench_device 0 ()) = (Some 1215, bench_device 0 ()) \<and>
   fst (getDeviceStatisticRegisterAddress 21 (bench_device 0 ())) = None \<and>
   fst (getDeviceStatisticRegisterAddress 0 (bench_device 0 ())) = None \<and>
   bus_calls (snd (getDeviceStatisticRegisterAddress 0 (bench_device 0 ()))) = [] \<and>
   m_serial (snd (getDeviceStatisticRegisterAddress 0 (bench_device 0 ()))) =
     [Println ''ERROR: function:'getDeviceStatisticRegisterAddress', argument statisticIndex is out of bounds'']"
  using getDeviceStatisticRegisterAddress_range [of 7 "bench_device 0 ()"]
    getDeviceStatisticRegisterAddress_range [of 21 "bench_device 0 ()"]
    getDeviceStatisticRegisterAddress_range [of 0 "bench_device 0 ()"]
  by (simp add: REGISTER_DEVICE_STATISTIC_1_VALUE_def)

text \<open>
  C8. Status decoding. When the read of the status register succeeds with the word
  \<open>w\<close>, \<^verbatim>\<open>getStatusFlags\<close> leaves each of the fourteen named flags true exactly when the
  bit of its constant is set in \<open>w\<close>, and \<^verbatim>\<open>ANY_ERROR\<close> true exactly when \<open>w\<close> is not
  zero; with \<open>w = 0\<close> all fifteen flags are false.
\<close>

theorem getStatusFlags_decodes_bits:
  assumes "fst (readSingleRegister T REGISTER_DEVICE_STATUS st) = Some w"
  shows "(TEMPERATURE_OVERFLOW (m_status (getStatusFlags T sj st)) \<longleftrightarrow> w AND 0x0001 \<noteq> 0) \<and>
    (TEMPERATURE_UNDERFLOW (m_status (getStatusFlags T sj st)) \<longleftrightarrow> w AND 0x0002 \<noteq> 0) \<and>
    (VOLUMETRIC_OVERFLOW (m_status (getStatusFlags T sj st)) \<longleftrightarrow> w AND 0x0004 \<noteq> 0) \<and>
    (VOLUMETRIC_UNDERFLOW (m_status (getStatusFlags T sj st)) \<longleftrightarrow> w AND 0x0008 \<noteq> 0) \<and>
    (MASS_OVERFLOW (m_status (getStatusFlags T sj st)) \<longleftrightarrow> w AND 0x0010 \<noteq> 0) \<and>
    (MASS_UNDERFLOW (m_status (getStatusFlags T sj st)) \<longleftrightarrow> w AND 0x0020 \<noteq> 0) \<and>
    (PRESSURE_OVERFLOW (m_status (getStatusFlags T sj st)) \<longleftrightarrow> w AND 0x0040 \<noteq> 0) \<and>
    (TOTALIZER_OVERFLOW (m_status (getStatusFlags T sj st)) \<longleftrightarrow> w AND 0x0080 \<noteq> 0) \<and>
    (PID_LOOP_IN_HOLD (m_status (getStatusFlags T sj st)) \<longleftrightarrow> w AND 0x0100 \<noteq> 0) \<and>
    (ADC_ERROR (m_status (getStatusFlags T sj st)) \<longleftrightarrow> w AND 0x0200 \<noteq> 0) \<and>
    (PID_EXHAUST (m_status (getStatusFlags T sj st)) \<longleftrightarrow> w AND 0x0400 \<noteq> 0) \<and>
    (OVER_PRESSURE_LIMIT (m_status (getStatusFlags T sj st)) \<longleftrightarrow> w AND 0x0800 \<noteq> 0) \<and>
    (FLOW_OVERFLOW_DURING_TOTALIZE (m_status (getStatusFlags T sj st)) \<longleftrightarrow>
       w AND 0x1000 \<noteq> 0) \<and>
    (MEASUREMENT_ABORTED (m_status (getStatusFlags T sj st)) \<longleftrightarrow> w AND 0x2000 \<noteq> 0) \<and>
    (ANY_ERROR (m_status (getStatusFlags T sj st)) \<longleftrightarrow> w \<noteq> 0) \<and>
    (w = 0 \<longrightarrow> m_status (getStatusFlags T sj st) = no_flags)"
  by (simp add: getStatusFlags_status [OF assms] no_flags_def)

theorem getStatusFlags_decodes_bits_witness:
  "m_status (getStatusFlags scripted_bus 7 (bench_device 0 [Some [0x0041]])) =
     no_flags\<lparr>TEMPERATURE_OVERFLOW := True, PRESSURE_OVERFLOW := True, ANY_ERROR := True\<rparr> \<and>
   m_status (getStatusFlags scripted_bus 7
     ((bench_device 0 [Some [0]])\<lparr>m_status := no_flags\<lparr>ADC_ERROR := True\<rparr>\<rparr>)) = no_flags"
  using getStatusFlags_decodes_bits [of scripted_bus "bench_device 0 [Some [0x0041]]" "0x0041" 7]
    getStatusFlags_decodes_bits [of scripted_bus
      "(bench_device 0 [Some [0]])\<lparr>m_status := no_flags\<lparr>ADC_ERROR := True\<rparr>\<rparr>" 0 7]
  by (simp add: readSingleRegister_def modbus_read_def offsetRegister_def int_wrap_32 no_flags_def)

text \<open>
  C9. Setpoint address. On a device for which \<^verbatim>\<open>deviceIsController\<close> holds, exactly
  one of \<^verbatim>\<open>deviceIsMassFlow\<close> and \<^verbatim>\<open>deviceIsPressureController\<close> holds, so
  \<^verbatim>\<open>getSetpoint\<close> takes one of its two address-resolving branches: it is the float read
  at statistic 5 on a mass-flow controller and at statistic 2 on a pressure controller,
  whatever the initial content \<open>registerAddress0\<close> of its local. The branch that would
  read at the unresolved address is not taken.
\<close>

theorem getSetpoint_address_resolved:
  assumes "deviceIsController st"
  shows "(deviceIsMassFlow st \<longleftrightarrow> \<not> deviceIsPressureController st) \<and>
    (deviceIsMassFlow st \<longrightarrow>
       getSetpoint T registerAddress0 st =
         readRegistersAsFloat T (REGISTER_DEVICE_STATISTIC_1_VALUE + 2 * (5 - 1)) st) \<and>
    (deviceIsPressureController st \<longrightarrow>
       getSetpoint T registerAddress0 st =
         readRegistersAsFloat T (REGISTER_DEVICE_STATISTIC_1_VALUE + 2 * (2 - 1)) st)"
  using assms
  by (auto simp add: getSetpoint_def getDeviceStatisticRegisterAddress_def assigned_def
      device_is_defs device_type_defs)

theorem getSetpoint_address_resolved_witness:
  "fst (getSetpoint scripted_bus 0 (bench_device DEVICE_TYPE_MASS_FLOW_CONTROLLER
          [Some [0x4248, 0]])) = Some 0x42480000 \<and>
   bus_calls (snd (getSetpoint scripted_bus 0 (bench_device DEVICE_TYPE_MASS_FLOW_CONTROLLER
          [Some [0x4248, 0]]))) = [ReadHolding 1 1210 2] \<and>
   bus_calls (snd (getSetpoint scripted_bus 0 (bench_device DEVICE_TYPE_PSID_CONTROLLER
          [Some [0x4248, 0]]))) = [ReadHolding 1 1204 2] \<and>
   bus_calls (snd (getSetpoint scripted_bus 0 (bench_device DEVICE_TYPE_GAUGE_PRESSURE_CONTROLLER
          [Some [0x4248, 0]]))) = [ReadHolding 1 1204 2]"
  using
    getSetpoint_address_resolved
      [of "bench_device DEVICE_TYPE_MASS_FLOW_CONTROLLER [Some [0x4248, 0]]" scripted_bus 0]
    getSetpoint_address_resolved
      [of "bench_device DEVICE_TYPE_PSID_CONTROLLER [Some [0x4248, 0]]" scripted_bus 0]
    getSetpoint_address_resolved
      [of "bench_device DEVICE_TYPE_GAUGE_PRESSURE_CONTROLLER [Some [0x4248, 0]]" scripted_bus 0]
  by (simp add: device_is_defs device_type_defs readRegistersAsFloat_def modbus_read_def
      offsetRegister_def int_wrap_32 REGISTER_DEVICE_STATISTIC_1_VALUE_def union_asFloat_def)

text \<open>
  C10. \<^verbatim>\<open>readPIDValue\<close> ignores the command's result. On a controller, with
  coefficient id 0, 1 or 2, let the read-back inside \<^verbatim>\<open>sendSpecialCommand\<close> succeed
  with status code \<open>s\<close> and the following read of the command-argument register succeed
  with \<open>v\<close>. Then \<^verbatim>\<open>sendSpecialCommand\<close> returns true only for \<open>s = 0\<close>, but
  \<^verbatim>\<open>readPIDValue\<close> stores \<open>v\<close> in either case; when the command failed and the register
  still holds the status code, the value stored is that error code.
\<close>

theorem readPIDValue_stores_regardless_of_status:
  assumes "deviceIsController st"
    and "coefficientID \<in> {0, 1, 2}"
    and "fst (readSingleRegister T REGISTER_COMMAND_ARGUMENT
           (modbus_write T (offsetRegister st REGISTER_COMMAND_ID)
              [SPECIAL_COMMAND_READ_PID_VALUE, coefficientID] st)) = Some s"
    and "fst (readSingleRegister T REGISTER_COMMAND_ARGUMENT
           (snd (readSingleRegister T REGISTER_COMMAND_ARGUMENT
              (modbus_write T (offsetRegister st REGISTER_COMMAND_ID)
                 [SPECIAL_COMMAND_READ_PID_VALUE, coefficientID] st)))) = Some v"
  shows "(fst (sendSpecialCommand T status0 SPECIAL_COMMAND_READ_PID_VALUE coefficientID st)
            \<longleftrightarrow> s = STATUS_CODE_SUCCESS) \<and>
         fst (readPIDValue T status0 coefficientID st) = Some v \<and>
         (s \<noteq> STATUS_CODE_SUCCESS \<and> v = s \<longrightarrow>
            fst (readPIDValue T status0 coefficientID st) = Some s)"
proof -
  let ?st1 = "modbus_write T (offsetRegister st REGISTER_COMMAND_ID)
                [SPECIAL_COMMAND_READ_PID_VALUE, coefficientID] st"
  let ?st2 = "snd (readSingleRegister T REGISTER_COMMAND_ARGUMENT ?st1)"
  let ?cmd = "sendSpecialCommand T status0 SPECIAL_COMMAND_READ_PID_VALUE coefficientID st"
  have cmd: "?cmd = handleSpecialCommandStatusCode s ?st2"
    by (rule sendSpecialCommand_Some [OF assms(3)])
  have ok: "fst ?cmd \<longleftrightarrow> s = STATUS_CODE_SUCCESS"
    by (simp add: cmd handle_fst)
  have "fst (readSingleRegister T REGISTER_COMMAND_ARGUMENT (snd ?cmd)) =
        fst (readSingleRegister T REGISTER_COMMAND_ARGUMENT ?st2)"
    by (rule readSingleRegister_fst_cong) (simp_all add: cmd)
  then have second: "fst (readSingleRegister T REGISTER_COMMAND_ARGUMENT (snd ?cmd)) = Some v"
    using assms(4) by simp
  have range: "\<not> (uint coefficientID < 0 \<or> uint coefficientID > 2)"
    using assms(2) by auto
  have "fst (readPIDValue T status0 coefficientID st) =
        fst (readSingleRegister T REGISTER_COMMAND_ARGUMENT (snd ?cmd))"
    using assms(1) range by (simp add: readPIDValue_def split: prod.splits)
  with second have out: "fst (readPIDValue T status0 coefficientID st) = Some v"
    by simp
  from ok out show ?thesis by simp
qed

theorem readPIDValue_stores_regardless_of_status_witness:
  "fst (sendSpecialCommand scripted_bus 7 SPECIAL_COMMAND_READ_PID_VALUE 1
          (bench_device DEVICE_TYPE_MASS_FLOW_CONTROLLER [Some [32770], Some [32770]])) = False \<and>
   fst (readPIDValue scripted_bus 7 1
          (bench_device DEVICE_TYPE_MASS_FLOW_CONTROLLER [Some [32770], Some [32770]])) =
     Some 32770"
  using readPIDValue_stores_regardless_of_status
    [of "bench_device DEVICE_TYPE_MASS_FLOW_CONTROLLER [Some [32770], Some [32770]]"
      1 scripted_bus 32770 32770 7]
  by (simp add: device_is_defs device_type_defs readSingleRegister_def modbus_read_def
      modbus_write_def offsetRegister_def int_wrap_32 STATUS_CODE_SUCCESS_def)

end
